theory Spec2Isabelle
  imports Complex_Main "HOL-Library.Multiset" "HOL-Library.Word"
begin

section \<open>Log table reader (plotGenericLine.py, data reading loop)\<close>

text \<open>
  A log file is a list of semicolon-separated rows as \<open>pandas.read_csv\<close> parses them:
  a field is an integer (a numpy \<open>int64\<close>, whose arithmetic wraps around), a float, an
  empty field (which pandas reads as \<open>nan\<close>) or text that is not a number. A cell of
  a numpy float array is \<open>real option\<close>: \<open>None\<close> is \<open>nan\<close>. Floating-point rounding
  is not modelled: floats are real numbers.
\<close>

datatype entry = I64 "64 word" | Num real | Blank | Text string

type_synonym logfile = "entry list list"

datatype py_error =
  FileNotFoundError | EmptyDataError | IndexError | TypeError | ValueError
  | UnboundLocalError | KeyError

text \<open>
  The results folder: the path built at lines 42-43 depends on the iteration number
  \<open>s\<close>, the scenario name and the device count (folder and application type are fixed
  during one call), so the store is indexed by these three.
\<close>

type_synonym log_store = "nat \<Rightarrow> string \<Rightarrow> int \<Rightarrow> logfile option"

text \<open>\<open>pd.read_csv(file_path, sep=';', header=None, skiprows=k, nrows=1)\<close>\<close>

definition read_csv_row :: "logfile \<Rightarrow> nat \<Rightarrow> py_error + entry list" where
  "read_csv_row f k = (if k < length f then Inr (f ! k) else Inl EmptyDataError)"

text \<open>\<open>data.iloc[0, c]\<close>: a negative position counts from the end of the row.\<close>

definition iloc0 :: "entry list \<Rightarrow> int \<Rightarrow> py_error + entry" where
  "iloc0 row c =
     (let n = int (length row); k = (if c < 0 then n + c else c)
      in if 0 \<le> k \<and> k < n then Inr (row ! nat k) else Inl IndexError)"

text \<open>
  \<open>total_data.iloc[0, 0] + total_data.iloc[0, 1]\<close>: two \<open>int64\<close> add with
  wrap-around, an \<open>int64\<close> and a float add as floats, text joins text.
\<close>

fun total_tasks :: "entry \<Rightarrow> entry \<Rightarrow> py_error + entry" where
  "total_tasks (I64 a) (I64 b) = Inr (I64 (a + b))"
| "total_tasks (I64 a) (Num b) = Inr (Num (real_of_int (sint a) + b))"
| "total_tasks (Num a) (I64 b) = Inr (Num (a + real_of_int (sint b)))"
| "total_tasks (Num a) (Num b) = Inr (Num (a + b))"
| "total_tasks (Text s) (Text t) = Inr (Text (s @ t))"
| "total_tasks (Text s) _ = Inl TypeError"
| "total_tasks _ (Text t) = Inl TypeError"
| "total_tasks Blank _ = Inr Blank"
| "total_tasks _ Blank = Inr Blank"

text \<open>\<open>total_tasks > 0\<close>: false for \<open>nan\<close>, a type error for text.\<close>

fun is_positive :: "entry \<Rightarrow> py_error + bool" where
  "is_positive (I64 t) = Inr (0 < sint t)"
| "is_positive (Num t) = Inr (0 < t)"
| "is_positive Blank = Inr False"
| "is_positive (Text s) = Inl TypeError"

text \<open>
  \<open>100 * value\<close>: the product of an \<open>int64\<close> is an \<open>int64\<close> again and wraps around;
  text is repeated.
\<close>

fun times100 :: "entry \<Rightarrow> entry" where
  "times100 (I64 v) = I64 (100 * v)"
| "times100 (Num v) = Num (100 * v)"
| "times100 Blank = Blank"
| "times100 (Text s) = Text (concat (replicate 100 s))"

text \<open>
  \<open>x / total_tasks\<close>: true division gives a float. It is evaluated only when
  \<open>total_tasks > 0\<close>, so the divisor is a positive number.
\<close>

fun true_divide :: "entry \<Rightarrow> entry \<Rightarrow> py_error + entry" where
  "true_divide (Text s) _ = Inl TypeError"
| "true_divide _ (Text t) = Inl TypeError"
| "true_divide Blank _ = Inr Blank"
| "true_divide _ Blank = Inr Blank"
| "true_divide (I64 x) (I64 t) = Inr (Num (real_of_int (sint x) / real_of_int (sint t)))"
| "true_divide (I64 x) (Num t) = Inr (Num (real_of_int (sint x) / t))"
| "true_divide (Num x) (I64 t) = Inr (Num (x / real_of_int (sint t)))"
| "true_divide (Num x) (Num t) = Inr (Num (x / t))"

text \<open>
  \<open>value = (100 * value) / total_tasks if total_tasks > 0 else 0\<close> (line 53); the
  condition is evaluated first.
\<close>

definition to_percentage :: "entry \<Rightarrow> entry \<Rightarrow> py_error + entry" where
  "to_percentage v tt =
     (case is_positive tt of
        Inl e \<Rightarrow> Inl e
      | Inr True \<Rightarrow> true_divide (times100 v) tt
      | Inr False \<Rightarrow> Inr (I64 0))"

text \<open>\<open>all_results[s-1, i, j] = value\<close>: the float array refuses text.\<close>

fun as_float :: "entry \<Rightarrow> py_error + real option" where
  "as_float (I64 v) = Inr (Some (real_of_int (sint v)))"
| "as_float (Num v) = Inr (Some v)"
| "as_float Blank = Inr None"
| "as_float (Text s) = Inl ValueError"

text \<open>
  The number that a numeric field stands for, and the two conditions under which the
  \<open>int64\<close> arithmetic of lines 52 and 53 does not wrap around: the product
  \<open>100 * value\<close> and the sum of the two totals stay within 64 bits. Fields that are
  floats need no condition.
\<close>

fun number_of :: "entry \<Rightarrow> real option" where
  "number_of (I64 w) = Some (real_of_int (sint w))"
| "number_of (Num x) = Some x"
| "number_of Blank = None"
| "number_of (Text s) = None"

fun times100_fits :: "entry \<Rightarrow> bool" where
  "times100_fits (I64 w) = (- (2 ^ 63) \<le> 100 * sint w \<and> 100 * sint w < 2 ^ 63)"
| "times100_fits e = True"

fun sum_fits :: "entry \<Rightarrow> entry \<Rightarrow> bool" where
  "sum_fits (I64 a) (I64 b) = (- (2 ^ 63) \<le> sint a + sint b \<and> sint a + sint b < 2 ^ 63)"
| "sum_fits e e' = True"

text \<open>Lines 46-53: the value that the body of the \<open>try\<close> block computes from an open file.\<close>

definition read_value :: "logfile \<Rightarrow> nat \<Rightarrow> int \<Rightarrow> string \<Rightarrow> py_error + entry" where
  "read_value f row_offset column_offset calculate_percentage =
     (case read_csv_row f row_offset of
        Inl e \<Rightarrow> Inl e
      | Inr data \<Rightarrow>
     (case iloc0 data (column_offset - 1) of
        Inl e \<Rightarrow> Inl e
      | Inr v \<Rightarrow>
          if calculate_percentage = ''percentage_of_all'' then
            (case read_csv_row f 1 of
               Inl e \<Rightarrow> Inl e
             | Inr total_data \<Rightarrow>
            (case iloc0 total_data 0 of
               Inl e \<Rightarrow> Inl e
             | Inr c0 \<Rightarrow>
            (case iloc0 total_data 1 of
               Inl e \<Rightarrow> Inl e
             | Inr c1 \<Rightarrow>
            (case total_tasks c0 c1 of
               Inl e \<Rightarrow> Inl e
             | Inr tt \<Rightarrow> to_percentage v tt))))
          else Inr v))"

text \<open>Lines 41-55: the whole \<open>try\<close> block for one position of the loop.\<close>

definition read_cell ::
  "log_store \<Rightarrow> nat \<Rightarrow> int \<Rightarrow> string \<Rightarrow> nat \<Rightarrow> string \<Rightarrow> int \<Rightarrow> py_error + real option" where
  "read_cell fs row_offset column_offset calculate_percentage s scenario num_devices =
     (case fs s scenario num_devices of
        None \<Rightarrow> Inl FileNotFoundError
      | Some f \<Rightarrow>
          (case read_value f row_offset column_offset calculate_percentage of
             Inl e \<Rightarrow> Inl e
           | Inr v \<Rightarrow> as_float v))"

text \<open>
  Lines 41-61: what the position's cell holds after the \<open>try\<close> statement; both handlers
  store \<open>nan\<close>.
\<close>

definition cell_value ::
  "log_store \<Rightarrow> nat \<Rightarrow> int \<Rightarrow> string \<Rightarrow> nat \<Rightarrow> string \<Rightarrow> int \<Rightarrow> real option" where
  "cell_value fs row_offset column_offset calculate_percentage s scenario num_devices =
     (case read_cell fs row_offset column_offset calculate_percentage s scenario num_devices of
        Inr v \<Rightarrow> v
      | Inl FileNotFoundError \<Rightarrow> None
      | Inl _ \<Rightarrow> None)"


text \<open>
  \<open>all_results\<close> is indexed by (iteration, scenario, device count). It is created by
  \<open>np.zeros\<close> (line 35) and written one cell at a time (lines 55, 58, 61).
\<close>

type_synonym table = "real option list list list"

definition zeros3 :: "nat \<Rightarrow> nat \<Rightarrow> nat \<Rightarrow> table" where
  "zeros3 a b c = replicate a (replicate b (replicate c (Some 0)))"

definition set3 :: "table \<Rightarrow> nat \<Rightarrow> nat \<Rightarrow> nat \<Rightarrow> real option \<Rightarrow> table" where
  "set3 A s i j v = A[s := (A ! s)[i := (A ! s ! i)[j := v]]]"

definition get3 :: "table \<Rightarrow> nat \<Rightarrow> nat \<Rightarrow> nat \<Rightarrow> real option" where
  "get3 A s i j = A ! s ! i ! j"

text \<open>The dimensions of a table: they never change after line 35.\<close>

definition shape3 :: "nat \<Rightarrow> nat \<Rightarrow> nat \<Rightarrow> table \<Rightarrow> bool" where
  "shape3 n a b A \<longleftrightarrow>
     length A = n \<and> (\<forall>s<n. length (A ! s) = a \<and> (\<forall>i<a. length (A ! s ! i) = b))"

text \<open>Lines 41-61: one pass through the \<open>try\<close> statement, at position (s, i, j).\<close>

definition store_cell ::
  "log_store \<Rightarrow> nat \<Rightarrow> int \<Rightarrow> string \<Rightarrow> nat \<Rightarrow> nat \<times> string \<Rightarrow> nat \<times> int \<Rightarrow> table \<Rightarrow> table" where
  "store_cell fs row_offset column_offset calculate_percentage s is jn A =
     (case read_cell fs row_offset column_offset calculate_percentage s (snd is) (snd jn) of
        Inr v \<Rightarrow> set3 A (s - 1) (fst is) (fst jn) v
      | Inl FileNotFoundError \<Rightarrow> set3 A (s - 1) (fst is) (fst jn) None
      | Inl _ \<Rightarrow> set3 A (s - 1) (fst is) (fst jn) None)"

text \<open>Lines 35-61: the three nested loops, iterations counted from 1.\<close>

definition data_reading_loop ::
  "log_store \<Rightarrow> nat \<Rightarrow> int \<Rightarrow> string \<Rightarrow> nat \<Rightarrow> string list \<Rightarrow> int list \<Rightarrow> table" where
  "data_reading_loop fs row_offset column_offset calculate_percentage
       num_simulations scenarios device_counts =
     fold (\<lambda>s. fold (\<lambda>is. fold (store_cell fs row_offset column_offset calculate_percentage s is)
                               (enumerate 0 device_counts))
                     (enumerate 0 scenarios))
          [1..<num_simulations + 1]
          (zeros3 num_simulations (length scenarios) (length device_counts))"

section \<open>Metric aggregation and confidence interval (plotGenericLine.py, lines 63-84)\<close>

text \<open>\<open>x[~np.isnan(x)]\<close>\<close>

definition non_nan :: "real option list \<Rightarrow> real list" where
  "non_nan xs = map the (filter (\<lambda>x. x \<noteq> None) xs)"

text \<open>\<open>np.nanmean\<close> of a one-dimensional slice: \<open>nan\<close> when nothing is left.\<close>

definition nanmean :: "real option list \<Rightarrow> real option" where
  "nanmean xs =
     (let ys = non_nan xs
      in if ys = [] then None else Some (sum_list ys / real (length ys)))"

text \<open>
  Division of a cell by a number. A zero divisor gives \<open>nan\<close> or an infinity in numpy;
  infinities are not modelled and every such quotient is \<open>None\<close>.
\<close>

definition np_div :: "real option \<Rightarrow> real \<Rightarrow> real option" where
  "np_div x d = (case x of None \<Rightarrow> None | Some v \<Rightarrow> if d = 0 then None else Some (v / d))"

definition np_sub :: "real option \<Rightarrow> real option \<Rightarrow> real option" where
  "np_sub x y = (case (x, y) of (Some a, Some b) \<Rightarrow> Some (a - b) | _ \<Rightarrow> None)"

text \<open>\<open>all_results[:, i, j]\<close>\<close>

definition axis0 :: "table \<Rightarrow> nat \<Rightarrow> nat \<Rightarrow> real option list" where
  "axis0 A i j = map (\<lambda>plane. plane ! i ! j) A"

text \<open>
  Lines 64-69. With a single iteration \<open>np.squeeze\<close> drops the iteration axis and the
  cell is the one sample itself. (It drops every other axis of length 1 as well; the
  model keeps the two indices of the cell.)
\<close>

definition results_cell :: "nat \<Rightarrow> real \<Rightarrow> real option list \<Rightarrow> real option" where
  "results_cell num_simulations divisor col =
     np_div (if num_simulations = 1 then col ! 0 else nanmean col) divisor"

definition results ::
  "table \<Rightarrow> nat \<Rightarrow> nat \<Rightarrow> nat \<Rightarrow> real \<Rightarrow> real option list list" where
  "results A num_simulations n_scenarios n_steps divisor =
     map (\<lambda>i. map (\<lambda>j. results_cell num_simulations divisor (axis0 A i j)) [0..<n_steps])
         [0..<n_scenarios]"

text \<open>The sample standard deviation with Bessel's correction.\<close>

definition sample_mean :: "real list \<Rightarrow> real" where
  "sample_mean xs = sum_list xs / real (length xs)"

definition sample_std :: "real list \<Rightarrow> real" where
  "sample_std xs =
     sqrt (sum_list (map (\<lambda>x. (x - sample_mean xs)\<^sup>2) xs) / (real (length xs) - 1))"

text \<open>\<open>np.std(data_slice, ddof=1)\<close>: \<open>nan\<close> as soon as an element is not a finite number.\<close>

definition np_std :: "real option list \<Rightarrow> real option" where
  "np_std xs =
     (if None \<in> set xs \<or> length xs < 2 then None else Some (sample_std (map the xs)))"

text \<open>
  \<open>scipy.stats.t.interval(confidence, df, loc, scale)\<close> returns the two quantiles
  \<open>ppf((1 - confidence) / 2)\<close> and \<open>ppf((1 + confidence) / 2)\<close> of the Student
  distribution moved to \<open>loc\<close> and stretched by \<open>scale\<close>. The library's \<open>ppf\<close> answers
  \<open>nan\<close> unless \<open>0 < scale\<close>, \<open>0 < df\<close> and \<open>loc\<close> is a number. The quantile function of
  the standard Student distribution is the parameter \<open>ppf\<close>.
\<close>

definition t_interval ::
  "(real \<Rightarrow> nat \<Rightarrow> real) \<Rightarrow> real \<Rightarrow> nat \<Rightarrow> real option \<Rightarrow> real option
     \<Rightarrow> real option \<times> real option" where
  "t_interval ppf confidence df loc scale =
     (case (loc, scale) of
        (Some l, Some sc) \<Rightarrow>
          if 0 < sc \<and> 0 < df
          then (Some (ppf ((1 - confidence) / 2) df * sc + l),
                Some (ppf ((1 + confidence) / 2) df * sc + l))
          else (None, None)
      | _ \<Rightarrow> (None, None))"

text \<open>
  Lines 72-84 for one cell: the pair (\<open>min_ci_vals[i, j]\<close>, \<open>max_ci_vals[i, j]\<close>) computed
  from the column \<open>all_results[:, i, j]\<close>. Both arrays start as zeros.
\<close>

definition ci_offsets ::
  "(real \<Rightarrow> nat \<Rightarrow> real) \<Rightarrow> nat \<Rightarrow> real \<Rightarrow> real option list \<Rightarrow> real option \<times> real option" where
  "ci_offsets ppf num_simulations divisor col =
     (let mean_result = np_div (nanmean col) divisor
      in if 1 < num_simulations then
           (let data_slice = map (\<lambda>x. np_div (Some x) divisor) (non_nan col)
            in if 1 < length data_slice then
                 (let std_err = np_div (np_std data_slice) (sqrt (real (length data_slice)));
                      ci = t_interval ppf (95 / 100) (length data_slice - 1) mean_result std_err
                  in (np_sub mean_result (fst ci), np_sub (snd ci) mean_result))
               else (Some 0, Some 0))
         else (Some 0, Some 0))"

definition min_ci_vals ::
  "(real \<Rightarrow> nat \<Rightarrow> real) \<Rightarrow> table \<Rightarrow> nat \<Rightarrow> nat \<Rightarrow> nat \<Rightarrow> real \<Rightarrow> real option list list" where
  "min_ci_vals ppf A num_simulations n_scenarios n_steps divisor =
     map (\<lambda>i. map (\<lambda>j. fst (ci_offsets ppf num_simulations divisor (axis0 A i j))) [0..<n_steps])
         [0..<n_scenarios]"

definition max_ci_vals ::
  "(real \<Rightarrow> nat \<Rightarrow> real) \<Rightarrow> table \<Rightarrow> nat \<Rightarrow> nat \<Rightarrow> nat \<Rightarrow> real \<Rightarrow> real option list list" where
  "max_ci_vals ppf A num_simulations n_scenarios n_steps divisor =
     map (\<lambda>i. map (\<lambda>j. snd (ci_offsets ppf num_simulations divisor (axis0 A i j))) [0..<n_steps])
         [0..<n_scenarios]"


section \<open>Dataset pipeline (data_convertor.py)\<close>

text \<open>
  One row of a \<open>learnerOutputFile\<close>: the two categorical columns, the stratum key that
  line 66 adds, and the numeric columns by name (\<open>None\<close> is \<open>nan\<close>, which is what
  \<open>read_csv\<close> makes of a \<open>?\<close>). The files are taken to carry every named column.
\<close>

record sim_row =
  Decision :: string
  Result :: string
  VehicleCount :: int
  metric :: "string \<Rightarrow> real option"

text \<open>The record files, by iteration number (\<open>ite + 1\<close>) and vehicle count.\<close>

type_synonym record_store = "nat \<Rightarrow> int \<Rightarrow> sim_row list option"

text \<open>The entries of \<open>config.json\<close> that the script reads (lines 19-24).\<close>

record config =
  num_iterations :: int
  train_data_ratio :: real
  min_vehicle :: int
  max_vehicle :: int
  vehicle_step_size :: int

text \<open>
  Lines 26-33. For any other target no branch assigns \<open>COLUMN_NAME\<close> and the
  \<open>return\<close> raises \<open>UnboundLocalError\<close>.
\<close>

definition getDecisionColumnName :: "string \<Rightarrow> py_error + string" where
  "getDecisionColumnName target =
     (if target = ''edge'' then Inr ''EDGE''
      else if target = ''cloud_rsu'' then Inr ''CLOUD_VIA_RSU''
      else if target = ''cloud_gsm'' then Inr ''CLOUD_VIA_GSM''
      else Inl UnboundLocalError)"

definition getClassifierColumns :: "string \<Rightarrow> py_error + string list" where
  "getClassifierColumns target =
     (if target = ''edge'' then
        Inr [''NumOffloadedTask'', ''TaskLength'', ''WLANUploadDelay'', ''WLANDownloadDelay'',
             ''AvgEdgeUtilization'', ''Result'']
      else if target = ''cloud_rsu'' then
        Inr [''NumOffloadedTask'', ''WANUploadDelay'', ''WANDownloadDelay'', ''Result'']
      else if target = ''cloud_gsm'' then
        Inr [''NumOffloadedTask'', ''GSMUploadDelay'', ''GSMDownloadDelay'', ''Result'']
      else Inl UnboundLocalError)"

definition getRegressionColumns :: "string \<Rightarrow> py_error + string list" where
  "getRegressionColumns target =
     (if target = ''edge'' then
        Inr [''TaskLength'', ''AvgEdgeUtilization'', ''ServiceTime'']
      else if target = ''cloud_rsu'' then
        Inr [''TaskLength'', ''WANUploadDelay'', ''WANDownloadDelay'', ''ServiceTime'']
      else if target = ''cloud_gsm'' then
        Inr [''TaskLength'', ''GSMUploadDelay'', ''GSMDownloadDelay'', ''ServiceTime'']
      else Inl UnboundLocalError)"

text \<open>Lines 73-76\<close>

definition targetColumns :: "string \<Rightarrow> string \<Rightarrow> py_error + string list" where
  "targetColumns method target =
     (if method = ''classifier'' then getClassifierColumns target
      else getRegressionColumns target)"

text \<open>Python's \<open>range(start, stop, step)\<close> as a list; a zero step raises.\<close>

definition py_range :: "int \<Rightarrow> int \<Rightarrow> int \<Rightarrow> py_error + int list" where
  "py_range start stop step =
     (if step = 0 then Inl ValueError
      else if 0 < step then
        Inr (map (\<lambda>k. start + int k * step) [0..<nat ((stop - start + step - 1) div step)])
      else
        Inr (map (\<lambda>k. start + int k * step) [0..<nat ((start - stop - step - 1) div (- step))]))"

text \<open>Line 59: true division, so the boundary need not be a whole number.\<close>

definition testDataStartIndex :: "config \<Rightarrow> real" where
  "testDataStartIndex cfg = (train_data_ratio cfg * real_of_int (num_iterations cfg)) / 100"

text \<open>Line 63: the test that decides whether iteration \<open>ite\<close> is loaded.\<close>

definition in_split :: "string \<Rightarrow> real \<Rightarrow> nat \<Rightarrow> bool" where
  "in_split data_type boundary ite =
     ((data_type = ''train'' \<and> real ite < boundary)
      \<or> (data_type = ''test'' \<and> boundary \<le> real ite))"

text \<open>
  Lines 61-63: the positions (0-based iteration, vehicle count) whose file the two
  nested loops open, in the order in which they open them.
\<close>

definition selected_files :: "config \<Rightarrow> string \<Rightarrow> int list \<Rightarrow> (nat \<times> int) list" where
  "selected_files cfg data_type vehicles =
     concat (map (\<lambda>ite. concat (map (\<lambda>vehicle.
                 if in_split data_type (testDataStartIndex cfg) ite then [(ite, vehicle)] else [])
               vehicles))
             [0..<nat (num_iterations cfg)])"

text \<open>
  Lines 64-68 over these positions. The first component lists the files read so far
  (iteration number, vehicle count); a missing file ends the script with
  \<open>FileNotFoundError\<close>. Line 66 stamps every row of a file with its vehicle count.
\<close>

fun read_files ::
  "record_store \<Rightarrow> (nat \<times> int) list \<Rightarrow> (nat \<times> int) list \<times> (py_error + sim_row list list)" where
  "read_files fs [] = ([], Inr [])"
| "read_files fs ((ite, vehicle) # ps) =
     (case fs (ite + 1) vehicle of
        None \<Rightarrow> ([], Inl FileNotFoundError)
      | Some rows \<Rightarrow>
          (case read_files fs ps of
             (trace, Inl e) \<Rightarrow> ((ite + 1, vehicle) # trace, Inl e)
           | (trace, Inr frames) \<Rightarrow>
               ((ite + 1, vehicle) # trace,
                Inr (map (\<lambda>r. r\<lparr>VehicleCount := vehicle\<rparr>) rows # frames))))"

text \<open>
  Lines 65-66 for one position: the rows of its file, each stamped with the vehicle
  count (no rows where there is no file).
\<close>

definition stamped_file :: "record_store \<Rightarrow> nat \<times> int \<Rightarrow> sim_row list" where
  "stamped_file fs p =
     (case fs (fst p + 1) (snd p) of
        None \<Rightarrow> []
      | Some rows \<Rightarrow> map (\<lambda>r. r\<lparr>VehicleCount := snd p\<rparr>) rows)"

text \<open>
  Lines 57-68. The inner \<open>range\<close> is built once per iteration, so a zero step raises
  only if there is an iteration at all.
\<close>

definition load_data_set ::
  "record_store \<Rightarrow> config \<Rightarrow> string \<Rightarrow> (nat \<times> int) list \<times> (py_error + sim_row list list)" where
  "load_data_set fs cfg data_type =
     (if num_iterations cfg \<le> 0 then ([], Inr [])
      else (case py_range (min_vehicle cfg) (max_vehicle cfg + 1) (vehicle_step_size cfg) of
              Inl e \<Rightarrow> ([], Inl e)
            | Inr vehicles \<Rightarrow> read_files fs (selected_files cfg data_type vehicles)))"

text \<open>Line 70: \<open>pd.concat\<close> refuses an empty list of frames.\<close>

definition pd_concat :: "sim_row list list \<Rightarrow> py_error + sim_row list" where
  "pd_concat frames = (if frames = [] then Inl ValueError else Inr (concat frames))"

text \<open>
  \<open>df.groupby('VehicleCount').apply(f)\<close>: the groups in increasing key order, each
  keeping the order of its rows, and the results of \<open>f\<close> put together.
\<close>

definition stratum :: "int \<Rightarrow> sim_row list \<Rightarrow> sim_row list" where
  "stratum v df = filter (\<lambda>r. VehicleCount r = v) df"

definition groupby_apply :: "(sim_row list \<Rightarrow> sim_row list) \<Rightarrow> sim_row list \<Rightarrow> sim_row list" where
  "groupby_apply f df = concat (map (\<lambda>v. f (stratum v df)) (sort (remdups (map VehicleCount df))))"

text \<open>
  Lines 98, 99 and 108: \<open>lambda x: x if len(x) < size else x.sample(size)\<close>. The random
  draw \<open>x.sample(size)\<close> is the parameter \<open>sample\<close>.
\<close>

definition cap_or_keep ::
  "(nat \<Rightarrow> sim_row list \<Rightarrow> sim_row list) \<Rightarrow> nat \<Rightarrow> sim_row list \<Rightarrow> sim_row list" where
  "cap_or_keep sample size' x = (if length x < size' then x else sample size' x)"

text \<open>
  What is assumed of the random draw \<open>x.sample(size)\<close> with \<open>size \<le> len(x)\<close>: it
  returns \<open>size\<close> rows taken from \<open>x\<close>, none of them more often than \<open>x\<close> holds it.
  That the draw is uniform is a matter of probability and is not modelled.
\<close>

definition draws_without_replacement :: "(nat \<Rightarrow> sim_row list \<Rightarrow> sim_row list) \<Rightarrow> bool" where
  "draws_without_replacement sample \<longleftrightarrow>
     (\<forall>k x. k \<le> length x \<longrightarrow> length (sample k x) = k \<and> mset (sample k x) \<subseteq># mset x)"

text \<open>Lines 90-108\<close>

definition balance ::
  "(nat \<Rightarrow> sim_row list \<Rightarrow> sim_row list) \<Rightarrow> string \<Rightarrow> int \<Rightarrow> sim_row list \<Rightarrow> sim_row list" where
  "balance sample method max_vehicle' data_set =
     (if method = ''classifier'' then
        (let df0 = filter (\<lambda>r. Result r = ''fail'') data_set;
             df1 = filter (\<lambda>r. Result r = ''success'') data_set;
             size' = length (stratum max_vehicle' df0) div 2;
             df1' = groupby_apply (cap_or_keep sample size') df1;
             df0' = groupby_apply (cap_or_keep sample size') df0
         in df0' @ df1')
      else
        (let data_set' = filter (\<lambda>r. Result r = ''success'') data_set;
             size' = length (stratum max_vehicle' data_set') div 3
         in groupby_apply (cap_or_keep sample size') data_set'))"

text \<open>
  \<open>column.mean()\<close> and \<open>column.std()\<close> of pandas skip \<open>nan\<close>; the standard deviation
  uses \<open>ddof = 1\<close> and is \<open>nan\<close> with fewer than two numbers.
\<close>

definition pd_mean :: "real option list \<Rightarrow> real option" where
  "pd_mean column = nanmean column"

definition pd_std :: "real option list \<Rightarrow> real option" where
  "pd_std column =
     (let ys = non_nan column in if length ys < 2 then None else Some (sample_std ys))"

text \<open>Lines 53-55. Nothing is checked: a zero deviation divides by zero, which gives \<open>nan\<close>.\<close>

definition znorm :: "real option list \<Rightarrow> real option list" where
  "znorm column =
     map (\<lambda>v. case pd_std column of
                 None \<Rightarrow> None
               | Some sd \<Rightarrow> np_div (np_sub v (pd_mean column)) sd)
         column"

text \<open>A cell of the exported frame: a number (or \<open>nan\<close>) or a label.\<close>

datatype cell = Number "real option" | Label string

text \<open>Lines 112-116: one column of the frame \<open>df\<close>.\<close>

definition extract_column :: "string \<Rightarrow> sim_row list \<Rightarrow> cell list" where
  "extract_column column data_set =
     (if column = ''Result'' then map (\<lambda>r. Label (Result r)) data_set
      else if column = ''ServiceTime'' then map (\<lambda>r. Number (metric r column)) data_set
      else map Number (znorm (map (\<lambda>r. metric r column) data_set)))"

text \<open>The frame \<open>df\<close> as a list of named columns, in the order of \<open>targetColumns\<close>.\<close>

definition extract_attributes :: "string list \<Rightarrow> sim_row list \<Rightarrow> (string \<times> cell list) list" where
  "extract_attributes columns data_set = map (\<lambda>column. (column, extract_column column data_set)) columns"

text \<open>Lines 120-124: the declaration of one attribute.\<close>

definition attribute_line :: "string \<Rightarrow> string" where
  "attribute_line column =
     (if column = ''Result'' then ''@attribute class {fail,success}''
      else ''@attribute '' @ column @ '' REAL'')"

text \<open>
  \<open>df.to_csv(f, header=False, index=False)\<close>: the cells of a row joined by commas. How a
  float is printed is the parameter \<open>fmt\<close>; \<open>nan\<close> is printed as nothing.
\<close>

definition render :: "(real \<Rightarrow> string) \<Rightarrow> cell \<Rightarrow> string" where
  "render fmt c = (case c of Number None \<Rightarrow> [] | Number (Some x) \<Rightarrow> fmt x | Label s \<Rightarrow> s)"

fun join_commas :: "string list \<Rightarrow> string" where
  "join_commas [] = []"
| "join_commas [x] = x"
| "join_commas (x # y # ys) = x @ '','' @ join_commas (y # ys)"

definition data_rows :: "(real \<Rightarrow> string) \<Rightarrow> nat \<Rightarrow> (string \<times> cell list) list \<Rightarrow> string list" where
  "data_rows fmt n df = map (\<lambda>k. join_commas (map (\<lambda>col. render fmt (snd col ! k)) df)) [0..<n]"

text \<open>
  Reading a data row back: the values between the commas of a line. (This is not part
  of the script; it is how the number of values of a row is counted.)
\<close>

fun split_commas :: "string \<Rightarrow> string list" where
  "split_commas [] = [[]]"
| "split_commas (c # cs) =
     (if c = CHR '','' then [] # split_commas cs
      else (case split_commas cs of [] \<Rightarrow> [[c]] | w # ws \<Rightarrow> (c # w) # ws))"

text \<open>Lines 118-127: the lines of the exported file.\<close>

definition arff_lines ::
  "(real \<Rightarrow> string) \<Rightarrow> string \<Rightarrow> string list \<Rightarrow> sim_row list \<Rightarrow> string list" where
  "arff_lines fmt target columns data_set =
     [''@relation '' @ target, []] @ map attribute_line columns @ [[], ''@data'']
     @ data_rows fmt (length data_set) (extract_attributes columns data_set)"

text \<open>
  The script from line 57 on: the files read, and either the error that ends the run
  or the lines written to the export file.
\<close>

definition convert ::
  "(nat \<Rightarrow> sim_row list \<Rightarrow> sim_row list) \<Rightarrow> (real \<Rightarrow> string) \<Rightarrow> record_store \<Rightarrow> config
     \<Rightarrow> string \<Rightarrow> string \<Rightarrow> string \<Rightarrow> (nat \<times> int) list \<times> (py_error + string list)" where
  "convert sample fmt fs cfg target method data_type =
     (case load_data_set fs cfg data_type of
        (trace, Inl e) \<Rightarrow> (trace, Inl e)
      | (trace, Inr frames) \<Rightarrow>
          (trace,
           (case pd_concat frames of
              Inl e \<Rightarrow> Inl e
            | Inr data_set \<Rightarrow>
           (case getDecisionColumnName target of
              Inl e \<Rightarrow> Inl e
            | Inr name \<Rightarrow>
           (case targetColumns method target of
              Inl e \<Rightarrow> Inl e
            | Inr columns \<Rightarrow>
                Inr (arff_lines fmt target columns
                       (balance sample method (max_vehicle cfg)
                          (filter (\<lambda>r. Decision r = name) data_set))))))))"


section \<open>Concrete inputs\<close>

text \<open>Two iterations, half of them for training, one vehicle count.\<close>

definition demo_cfg :: config where
  "demo_cfg = \<lparr>num_iterations = 2, train_data_ratio = 50, min_vehicle = 10,
                max_vehicle = 10, vehicle_step_size = 10\<rparr>"

text \<open>
  A log whose second row holds 15 completed and 5 failed tasks, a results folder
  where only iteration 2 has the file of scenario \<open>S\<close> with 200 devices, and one
  where every file is there.
\<close>

definition demo_log :: logfile where
  "demo_log = [[Num 7, Num 0], [Num 15, Num 5]]"

definition demo_store :: log_store where
  "demo_store s scenario num_devices =
     (if s = 2 \<and> scenario = ''S'' \<and> num_devices = 200 then Some demo_log else None)"

definition full_store :: log_store where
  "full_store s scenario num_devices = Some demo_log"

text \<open>
  Logs whose fields are integers: 15 completed and 5 failed tasks in the second row,
  and one with a third row that holds the count \<open>10^17\<close>.
\<close>

definition count_log :: logfile where
  "count_log = [[I64 7, I64 0], [I64 15, I64 5]]"

definition count_store :: log_store where
  "count_store s scenario num_devices = Some count_log"

definition huge_log :: logfile where
  "huge_log = [[I64 7, I64 0], [I64 15, I64 5], [I64 100000000000000000]]"

definition huge_store :: log_store where
  "huge_store s scenario num_devices = Some huge_log"

text \<open>
  A stand-in for the quantile function of the Student distribution: the two quantiles
  that a 95% interval with one degree of freedom uses.
\<close>

definition demo_ppf :: "real \<Rightarrow> nat \<Rightarrow> real" where
  "demo_ppf q df = (if q < 1 / 2 then - (12706 / 1000) else 12706 / 1000)"

text \<open>A results folder where iteration \<open>s\<close> reports the value \<open>2 * s - 1\<close>.\<close>

definition ramp_store :: log_store where
  "ramp_store s scenario num_devices = Some [[Num (2 * real s - 1)]]"

text \<open>Rows of the edge tier: four failures with 20 vehicles, successes with 10 and 20.\<close>

definition demo_row :: "string \<Rightarrow> int \<Rightarrow> real \<Rightarrow> sim_row" where
  "demo_row res vc x =
     \<lparr>Decision = ''EDGE'', Result = res, VehicleCount = vc, metric = (\<lambda>c. Some x)\<rparr>"

definition demo_rows :: "sim_row list" where
  "demo_rows =
     [demo_row ''fail'' 20 1, demo_row ''fail'' 20 2, demo_row ''fail'' 20 3,
      demo_row ''fail'' 20 4, demo_row ''success'' 10 5, demo_row ''success'' 20 6,
      demo_row ''success'' 20 7, demo_row ''success'' 20 8]"

text \<open>
  A configuration with the vehicle counts 10 and 20, record files for them (the stratum
  key is stamped on the rows when they are loaded), and a printer of floats.
\<close>

definition demo_cfg2 :: config where
  "demo_cfg2 = \<lparr>num_iterations = 2, train_data_ratio = 50, min_vehicle = 10,
                 max_vehicle = 20, vehicle_step_size = 10\<rparr>"

definition demo_records :: record_store where
  "demo_records ite vehicle =
     (if vehicle = 10 then Some [demo_row ''success'' 0 1]
      else if vehicle = 20 then
        Some [demo_row ''success'' 0 3, demo_row ''success'' 0 5, demo_row ''success'' 0 6,
              demo_row ''fail'' 0 7, demo_row ''fail'' 0 9]
      else None)"

definition demo_fmt :: "real \<Rightarrow> string" where
  "demo_fmt x = ''1.0''"

text \<open>Record files in which every row carries the value 4 in every numeric column.\<close>

definition flat_records :: record_store where
  "flat_records ite vehicle =
     (if vehicle = 10 then Some [demo_row ''success'' 0 4]
      else if vehicle = 20 then
        Some [demo_row ''success'' 0 4, demo_row ''success'' 0 4, demo_row ''success'' 0 4]
      else None)"

text \<open>Record files whose single row carries the number of its iteration.\<close>

definition split_records :: record_store where
  "split_records ite vehicle = Some [demo_row ''success'' 0 (real ite)]"

section \<open>The data reading loop fills every cell\<close>

lemma shape3_zeros3: "shape3 n a b (zeros3 n a b)"
  by (simp add: shape3_def zeros3_def)

lemma shape3_set3: "shape3 n a b A \<Longrightarrow> shape3 n a b (set3 A s i j v)"
proof (cases "s < length A")
  case False
  assume "shape3 n a b A"
  with False show ?thesis by (simp add: set3_def list_update_beyond)
next
  case True
  assume sh: "shape3 n a b A"
  show ?thesis
  proof (cases "i < length (A ! s)")
    case False
    then have "(A ! s)[i := (A ! s ! i)[j := v]] = A ! s" by (simp add: list_update_beyond)
    with sh show ?thesis by (simp add: set3_def)
  next
    case i: True
    with sh True show ?thesis
      by (auto simp: shape3_def set3_def nth_list_update)
  qed
qed

lemma get3_set3:
  assumes "shape3 n a b A" "s < n" "i < a" "j < b"
  shows "get3 (set3 A s i j v) s' i' j' =
           (if s' = s \<and> i' = i \<and> j' = j then v else get3 A s' i' j')"
  using assms by (auto simp: shape3_def set3_def get3_def nth_list_update)

lemma store_cell_set3:
  "store_cell fs ro co cp s is jn A =
     set3 A (s - 1) (fst is) (fst jn) (cell_value fs ro co cp s (snd is) (snd jn))"
  by (simp add: store_cell_def cell_value_def split: sum.splits py_error.splits)

lemma inner_loop:
  assumes "shape3 n a b A" "s - 1 < n" "fst is < a" "j0 + length ds \<le> b"
  shows "shape3 n a b (fold (store_cell fs ro co cp s is) (enumerate j0 ds) A)
       \<and> (\<forall>s' i' j'. get3 (fold (store_cell fs ro co cp s is) (enumerate j0 ds) A) s' i' j' =
             (if s' = s - 1 \<and> i' = fst is \<and> j0 \<le> j' \<and> j' < j0 + length ds
              then cell_value fs ro co cp s (snd is) (ds ! (j' - j0))
              else get3 A s' i' j'))"
  using assms
proof (induction ds arbitrary: j0 A)
  case Nil
  then show ?case by auto
next
  case (Cons d ds)
  let ?A' = "store_cell fs ro co cp s is (j0, d) A"
  have sh: "shape3 n a b ?A'"
    using Cons.prems(1) by (simp add: store_cell_set3 shape3_set3)
  have g: "get3 ?A' s' i' j' =
             (if s' = s - 1 \<and> i' = fst is \<and> j' = j0
              then cell_value fs ro co cp s (snd is) d else get3 A s' i' j')" for s' i' j'
    using Cons.prems by (simp add: store_cell_set3 get3_set3 [where n = n and a = a and b = b])
  have IH: "shape3 n a b (fold (store_cell fs ro co cp s is) (enumerate (Suc j0) ds) ?A')
       \<and> (\<forall>s' i' j'. get3 (fold (store_cell fs ro co cp s is) (enumerate (Suc j0) ds) ?A') s' i' j' =
             (if s' = s - 1 \<and> i' = fst is \<and> Suc j0 \<le> j' \<and> j' < Suc j0 + length ds
              then cell_value fs ro co cp s (snd is) (ds ! (j' - Suc j0))
              else get3 ?A' s' i' j'))"
    using Cons.IH [OF sh Cons.prems(2,3)] Cons.prems(4) by simp
  show ?case
    using IH by (auto simp: g nth_Cons' Suc_diff_le dest: )
qed


lemma middle_loop:
  assumes "shape3 n a (length dc) A" "s - 1 < n" "i0 + length scs \<le> a"
  shows "shape3 n a (length dc)
           (fold (\<lambda>is. fold (store_cell fs ro co cp s is) (enumerate 0 dc)) (enumerate i0 scs) A)
       \<and> (\<forall>s' i' j'. j' < length dc \<longrightarrow>
             get3 (fold (\<lambda>is. fold (store_cell fs ro co cp s is) (enumerate 0 dc))
                        (enumerate i0 scs) A) s' i' j' =
             (if s' = s - 1 \<and> i0 \<le> i' \<and> i' < i0 + length scs
              then cell_value fs ro co cp s (scs ! (i' - i0)) (dc ! j')
              else get3 A s' i' j'))"
  using assms
proof (induction scs arbitrary: i0 A)
  case Nil
  then show ?case by auto
next
  case (Cons c scs)
  let ?A' = "fold (store_cell fs ro co cp s (i0, c)) (enumerate 0 dc) A"
  have i0: "fst (i0, c) < a" using Cons.prems(3) by simp
  have inner: "shape3 n a (length dc) ?A'
       \<and> (\<forall>s' i' j'. get3 ?A' s' i' j' =
             (if s' = s - 1 \<and> i' = i0 \<and> j' < length dc
              then cell_value fs ro co cp s c (dc ! j')
              else get3 A s' i' j'))"
    using inner_loop [OF Cons.prems(1,2) i0, of 0 dc fs ro co cp] by simp
  have IH: "shape3 n a (length dc)
           (fold (\<lambda>is. fold (store_cell fs ro co cp s is) (enumerate 0 dc)) (enumerate (Suc i0) scs) ?A')
       \<and> (\<forall>s' i' j'. j' < length dc \<longrightarrow>
             get3 (fold (\<lambda>is. fold (store_cell fs ro co cp s is) (enumerate 0 dc))
                        (enumerate (Suc i0) scs) ?A') s' i' j' =
             (if s' = s - 1 \<and> Suc i0 \<le> i' \<and> i' < Suc i0 + length scs
              then cell_value fs ro co cp s (scs ! (i' - Suc i0)) (dc ! j')
              else get3 ?A' s' i' j'))"
    using Cons.IH [of ?A' "Suc i0"] inner Cons.prems(2,3) by simp
  show ?case
    using IH inner by (auto simp: nth_Cons' Suc_diff_le)
qed

lemma outer_loop:
  assumes "shape3 n (length scs) (length dc) A" "s0 + k \<le> n"
  shows "shape3 n (length scs) (length dc)
           (fold (\<lambda>s. fold (\<lambda>is. fold (store_cell fs ro co cp s is) (enumerate 0 dc))
                            (enumerate 0 scs))
                 [Suc s0..<Suc (s0 + k)] A)
       \<and> (\<forall>s' i' j'. i' < length scs \<longrightarrow> j' < length dc \<longrightarrow>
             get3 (fold (\<lambda>s. fold (\<lambda>is. fold (store_cell fs ro co cp s is) (enumerate 0 dc))
                                   (enumerate 0 scs))
                        [Suc s0..<Suc (s0 + k)] A) s' i' j' =
             (if s0 \<le> s' \<and> s' < s0 + k
              then cell_value fs ro co cp (Suc s') (scs ! i') (dc ! j')
              else get3 A s' i' j'))"
  using assms
proof (induction k arbitrary: s0 A)
  case 0
  then show ?case by auto
next
  case (Suc k)
  let ?A' = "fold (\<lambda>is. fold (store_cell fs ro co cp (Suc s0) is) (enumerate 0 dc)) (enumerate 0 scs) A"
  have mid: "shape3 n (length scs) (length dc) ?A'
       \<and> (\<forall>s' i' j'. j' < length dc \<longrightarrow>
             get3 ?A' s' i' j' =
             (if s' = s0 \<and> i' < length scs
              then cell_value fs ro co cp (Suc s0) (scs ! i') (dc ! j')
              else get3 A s' i' j'))"
    using middle_loop [of n "length scs" dc A "Suc s0" 0 scs fs ro co cp] Suc.prems by simp
  have up: "[Suc s0..<Suc (s0 + Suc k)] = Suc s0 # [Suc (Suc s0)..<Suc (Suc s0 + k)]"
    by (simp add: upt_conv_Cons)
  have IH: "shape3 n (length scs) (length dc)
           (fold (\<lambda>s. fold (\<lambda>is. fold (store_cell fs ro co cp s is) (enumerate 0 dc))
                            (enumerate 0 scs))
                 [Suc (Suc s0)..<Suc (Suc s0 + k)] ?A')
       \<and> (\<forall>s' i' j'. i' < length scs \<longrightarrow> j' < length dc \<longrightarrow>
             get3 (fold (\<lambda>s. fold (\<lambda>is. fold (store_cell fs ro co cp s is) (enumerate 0 dc))
                                   (enumerate 0 scs))
                        [Suc (Suc s0)..<Suc (Suc s0 + k)] ?A') s' i' j' =
             (if Suc s0 \<le> s' \<and> s' < Suc s0 + k
              then cell_value fs ro co cp (Suc s') (scs ! i') (dc ! j')
              else get3 ?A' s' i' j'))"
    using Suc.IH [of ?A' "Suc s0"] mid Suc.prems(2) by simp
  show ?case
    unfolding up using IH mid by (auto simp: le_Suc_eq)
qed

lemma data_reading_loop_cells:
  assumes "s < num_simulations" "i < length scenarios" "j < length device_counts"
  shows "get3 (data_reading_loop fs ro co cp num_simulations scenarios device_counts) s i j
           = cell_value fs ro co cp (Suc s) (scenarios ! i) (device_counts ! j)"
  using outer_loop [OF shape3_zeros3, of 0 num_simulations num_simulations scenarios device_counts fs ro co cp] assms
  by (simp add: data_reading_loop_def)

lemma data_reading_loop_shape:
  "shape3 num_simulations (length scenarios) (length device_counts)
     (data_reading_loop fs ro co cp num_simulations scenarios device_counts)"
  using outer_loop [OF shape3_zeros3, of 0 num_simulations num_simulations scenarios device_counts fs ro co cp]
  by (simp add: data_reading_loop_def)

section \<open>Failures while reading\<close>

lemma zeros_212: "shape3 2 1 2 (zeros3 2 1 2)" by (rule shape3_zeros3)

lemma rc1: "read_cell demo_store 1 2 [] 1 ''S'' 200 = Inl FileNotFoundError"
  by (simp add: read_cell_def demo_store_def)

lemma rc2: "read_cell demo_store 1 2 [] (Suc (Suc 0)) ''S'' 200 = Inr (Some 5)"
  by (simp add: read_cell_def demo_store_def demo_log_def read_value_def read_csv_row_def iloc0_def)

lemma rc3: "read_cell full_store 1 2 ''percentage_of_all'' s ''S'' 200 = Inr (Some 25)"
  by (simp add: read_cell_def full_store_def demo_log_def read_value_def read_csv_row_def iloc0_def to_percentage_def)

text \<open>
  Claim C7. When the \<open>try\<close> block of a position fails, whatever the error (file not
  found or anything raised while reading the row), that pass stores \<open>nan\<close> in the
  position's own cell, changes no other cell and keeps the table's dimensions. The loop
  is total: it returns a table of the configured dimensions in which every position
  holds the outcome of its own read, \<open>nan\<close> if that read failed.
\<close>

theorem failure_degrades_only_its_cell:
  assumes "shape3 n a b A" and "s - 1 < n" and "fst is < a" and "fst jn < b"
    and "read_cell fs ro co cp s (snd is) (snd jn) = Inl e"
    and "s' < num_simulations" and "i' < length scenarios" and "j' < length device_counts"
  shows "get3 (store_cell fs ro co cp s is jn A) (s - 1) (fst is) (fst jn) = None
       \<and> (\<forall>s2 i2 j2. (s2, i2, j2) \<noteq> (s - 1, fst is, fst jn) \<longrightarrow>
             get3 (store_cell fs ro co cp s is jn A) s2 i2 j2 = get3 A s2 i2 j2)
       \<and> shape3 n a b (store_cell fs ro co cp s is jn A)
       \<and> shape3 num_simulations (length scenarios) (length device_counts)
             (data_reading_loop fs ro co cp num_simulations scenarios device_counts)
       \<and> get3 (data_reading_loop fs ro co cp num_simulations scenarios device_counts) s' i' j'
             = (case read_cell fs ro co cp (Suc s') (scenarios ! i') (device_counts ! j') of
                  Inl err \<Rightarrow> None | Inr v \<Rightarrow> v)"
proof -
  have cv: "cell_value fs ro co cp s (snd is) (snd jn) = None"
    using assms(5) by (simp add: cell_value_def split: py_error.splits)
  have 1: "get3 (store_cell fs ro co cp s is jn A) (s - 1) (fst is) (fst jn) = None"
    using assms(1-4) cv by (simp add: store_cell_set3 get3_set3 [where n = n and a = a and b = b])
  have 2: "\<forall>s2 i2 j2. (s2, i2, j2) \<noteq> (s - 1, fst is, fst jn) \<longrightarrow>
             get3 (store_cell fs ro co cp s is jn A) s2 i2 j2 = get3 A s2 i2 j2"
    using assms(1-4) by (simp add: store_cell_set3 get3_set3 [where n = n and a = a and b = b])
  have 3: "shape3 n a b (store_cell fs ro co cp s is jn A)"
    using assms(1) by (simp add: store_cell_set3 shape3_set3)
  have 5: "cell_value fs ro co cp (Suc s') (scenarios ! i') (device_counts ! j')
             = (case read_cell fs ro co cp (Suc s') (scenarios ! i') (device_counts ! j') of
                  Inl err \<Rightarrow> None | Inr v \<Rightarrow> v)"
    by (simp add: cell_value_def split: sum.splits py_error.splits)
  show ?thesis
    using 1 2 3 5 data_reading_loop_shape data_reading_loop_cells [OF assms(6-8)] by simp
qed

theorem failure_degrades_only_its_cell_witness:
  "get3 (store_cell demo_store 1 2 [] 1 (0, ''S'') (1, 200) (zeros3 2 1 2)) 0 0 1 = None
   \<and> get3 (store_cell demo_store 1 2 [] 1 (0, ''S'') (1, 200) (zeros3 2 1 2)) 1 0 1 = Some 0
   \<and> get3 (data_reading_loop demo_store 1 2 [] 2 [''S''] [100, 200]) 0 0 1 = None
   \<and> get3 (data_reading_loop demo_store 1 2 [] 2 [''S''] [100, 200]) 1 0 1 = Some 5"
proof -
  have a: "(1::nat) - 1 < 2" "fst (0::nat, ''S'') < 1" "fst (1::nat, 200::int) < 2" by simp_all
  have r: "read_cell demo_store 1 2 [] 1 (snd (0::nat, ''S'')) (snd (1::nat, 200::int))
             = Inl FileNotFoundError"
    using rc1 by simp
  have b: "(0::nat) < 2" "(0::nat) < length [''S'']" "(1::nat) < length [100::int, 200]" by simp_all
  have c: "(1::nat) < 2" by simp
  have z: "get3 (zeros3 2 1 2) 1 0 1 = Some 0"
    by (simp add: get3_def zeros3_def numeral_2_eq_2)
  from failure_degrades_only_its_cell [OF zeros_212 a r b]
       failure_degrades_only_its_cell [OF zeros_212 a r c b(2,3)]
  show ?thesis using rc1 rc2 z by simp
qed

section \<open>The train/test split\<close>

lemma read_files_trace:
  "snd (read_files fs ps) = Inr frames \<Longrightarrow>
     fst (read_files fs ps) = map (\<lambda>p. (fst p + 1, snd p)) ps"
proof (induction ps arbitrary: frames)
  case Nil
  then show ?case by simp
next
  case (Cons p ps)
  obtain ite vehicle where p: "p = (ite, vehicle)" by (cases p)
  from Cons.prems p obtain rows where rows: "fs (ite + 1) vehicle = Some rows"
    by (cases "fs (ite + 1) vehicle") auto
  obtain tr r where rf: "read_files fs ps = (tr, r)" by (cases "read_files fs ps")
  from Cons.prems p rows rf obtain fr where "r = Inr fr"
    by (cases r) auto
  with Cons.IH rf have "tr = map (\<lambda>p. (fst p + 1, snd p)) ps" by simp
  with p rows rf \<open>r = Inr fr\<close> show ?case by simp
qed

lemma set_selected_files:
  "set (selected_files cfg data_type vehicles) =
     {(ite, vehicle). ite < nat (num_iterations cfg) \<and> vehicle \<in> set vehicles
        \<and> in_split data_type (testDataStartIndex cfg) ite}"
  by (auto simp: selected_files_def split: if_splits)

lemma read_files_frames:
  "snd (read_files fs ps) = Inr frames \<Longrightarrow> frames = map (stamped_file fs) ps"
proof (induction ps arbitrary: frames)
  case Nil
  then show ?case by simp
next
  case (Cons p ps)
  obtain ite vehicle where p: "p = (ite, vehicle)" by (cases p)
  from Cons.prems p obtain rows where rows: "fs (ite + 1) vehicle = Some rows"
    by (cases "fs (ite + 1) vehicle") auto
  obtain tr r where rf: "read_files fs ps = (tr, r)" by (cases "read_files fs ps")
  from Cons.prems p rows rf obtain fr where r: "r = Inr fr"
    by (cases r) auto
  with Cons.IH rf have "fr = map (stamped_file fs) ps" by simp
  with Cons.prems p rows rf r show ?case by (auto simp: stamped_file_def)
qed

lemma selected_files_product:
  "selected_files cfg data_type vehicles
     = filter (\<lambda>p. in_split data_type (testDataStartIndex cfg) (fst p))
         (List.product [0..<nat (num_iterations cfg)] vehicles)"
proof -
  have inner: "concat (map (\<lambda>vehicle. if P then [(ite, vehicle)] else []) vs)
                 = filter (\<lambda>p. P) (map (Pair ite) vs)" for P ite and vs :: "int list"
    by (induction vs) auto
  have outer: "concat (map (\<lambda>ite. concat (map (\<lambda>vehicle. if Q ite then [(ite, vehicle)] else []) vs)) is)
                 = filter (\<lambda>p. Q (fst p)) (List.product is vs)"
    for Q and "is" :: "nat list" and vs :: "int list"
  proof (induction "is")
    case Nil
    then show ?case by simp
  next
    case (Cons i "is")
    have "filter (\<lambda>p. Q (fst p)) (map (Pair i) vs) = filter (\<lambda>p. Q i) (map (Pair i) vs)"
      by (induction vs) auto
    with Cons inner [of "Q i" i vs] show ?case by simp
  qed
  show ?thesis
    unfolding selected_files_def by (rule outer)
qed


lemma read_files_exist:
  "snd (read_files fs ps) = Inr frames \<Longrightarrow> \<forall>p\<in>set ps. fs (fst p + 1) (snd p) \<noteq> None"
proof (induction ps arbitrary: frames)
  case Nil
  then show ?case by simp
next
  case (Cons p ps)
  obtain ite vehicle where p: "p = (ite, vehicle)" by (cases p)
  from Cons.prems p obtain rows where rows: "fs (ite + 1) vehicle = Some rows"
    by (cases "fs (ite + 1) vehicle") auto
  obtain tr r where rf: "read_files fs ps = (tr, r)" by (cases "read_files fs ps")
  from Cons.prems p rows rf obtain fr where r: "r = Inr fr"
    by (cases r) auto
  with Cons.IH rf have "\<forall>p\<in>set ps. fs (fst p + 1) (snd p) \<noteq> None" by simp
  with p rows show ?case by simp
qed

text \<open>
  Claim C10. When both splits load, the file of iteration \<open>ite\<close> (0-based; its folder
  is \<open>ite + 1\<close>) and of any vehicle count of the range is read for the train split
  exactly if \<open>ite < train_data_ratio * num_iterations / 100\<close>, for the test split
  exactly if \<open>ite\<close> is at least that boundary, and so for exactly one of the two.
  The frames loaded for the train split are the stamped rows of the files of the
  iterations below the boundary, in loop order, and those loaded for the test split are
  the stamped rows of the files of the iterations at or above it; every such file is
  there.
\<close>

theorem train_test_split:
  assumes "0 < num_iterations cfg"
    and "py_range (min_vehicle cfg) (max_vehicle cfg + 1) (vehicle_step_size cfg) = Inr vehicles"
    and "snd (load_data_set fs cfg ''train'') = Inr train_frames"
    and "snd (load_data_set fs cfg ''test'') = Inr test_frames"
    and "ite < nat (num_iterations cfg)" and "vehicle \<in> set vehicles"
  shows "((ite + 1, vehicle) \<in> set (fst (load_data_set fs cfg ''train''))
           \<longleftrightarrow> real ite < train_data_ratio cfg * real_of_int (num_iterations cfg) / 100)
       \<and> ((ite + 1, vehicle) \<in> set (fst (load_data_set fs cfg ''test''))
           \<longleftrightarrow> train_data_ratio cfg * real_of_int (num_iterations cfg) / 100 \<le> real ite)
       \<and> ((ite + 1, vehicle) \<in> set (fst (load_data_set fs cfg ''train''))
           \<longleftrightarrow> (ite + 1, vehicle) \<notin> set (fst (load_data_set fs cfg ''test'')))
       \<and> train_frames
           = map (stamped_file fs)
               (filter (\<lambda>p. real (fst p)
                          < train_data_ratio cfg * real_of_int (num_iterations cfg) / 100)
                  (List.product [0..<nat (num_iterations cfg)] vehicles))
       \<and> test_frames
           = map (stamped_file fs)
               (filter (\<lambda>p. train_data_ratio cfg * real_of_int (num_iterations cfg) / 100
                          \<le> real (fst p))
                  (List.product [0..<nat (num_iterations cfg)] vehicles))
       \<and> (\<exists>rows. fs (ite + 1) vehicle = Some rows
             \<and> stamped_file fs (ite, vehicle) = map (\<lambda>r. r\<lparr>VehicleCount := vehicle\<rparr>) rows)"
proof -
  have ld: "load_data_set fs cfg dt = read_files fs (selected_files cfg dt vehicles)" for dt
    using assms(1,2) by (simp add: load_data_set_def)
  have rtr: "snd (read_files fs (selected_files cfg ''train'' vehicles)) = Inr train_frames"
    using assms(3) by (simp add: ld)
  have rte: "snd (read_files fs (selected_files cfg ''test'' vehicles)) = Inr test_frames"
    using assms(4) by (simp add: ld)
  have tr: "fst (load_data_set fs cfg ''train'')
              = map (\<lambda>p. (fst p + 1, snd p)) (selected_files cfg ''train'' vehicles)"
    using read_files_trace [OF rtr] by (simp add: ld)
  have te: "fst (load_data_set fs cfg ''test'')
              = map (\<lambda>p. (fst p + 1, snd p)) (selected_files cfg ''test'' vehicles)"
    using read_files_trace [OF rte] by (simp add: ld)
  have mem: "(ite + 1, vehicle) \<in> set (map (\<lambda>p. (fst p + 1, snd p)) (selected_files cfg dt vehicles))
           \<longleftrightarrow> in_split dt (testDataStartIndex cfg) ite" for dt
    using assms(5,6) by (force simp: set_selected_files)
  have first: "((ite + 1, vehicle) \<in> set (fst (load_data_set fs cfg ''train''))
           \<longleftrightarrow> real ite < train_data_ratio cfg * real_of_int (num_iterations cfg) / 100)
       \<and> ((ite + 1, vehicle) \<in> set (fst (load_data_set fs cfg ''test''))
           \<longleftrightarrow> train_data_ratio cfg * real_of_int (num_iterations cfg) / 100 \<le> real ite)
       \<and> ((ite + 1, vehicle) \<in> set (fst (load_data_set fs cfg ''train''))
           \<longleftrightarrow> (ite + 1, vehicle) \<notin> set (fst (load_data_set fs cfg ''test'')))"
    unfolding tr te mem by (auto simp: in_split_def testDataStartIndex_def)
  have ftr: "train_frames
           = map (stamped_file fs)
               (filter (\<lambda>p. real (fst p)
                          < train_data_ratio cfg * real_of_int (num_iterations cfg) / 100)
                  (List.product [0..<nat (num_iterations cfg)] vehicles))"
    using read_files_frames [OF rtr]
    by (simp add: selected_files_product in_split_def testDataStartIndex_def)
  have fte: "test_frames
           = map (stamped_file fs)
               (filter (\<lambda>p. train_data_ratio cfg * real_of_int (num_iterations cfg) / 100
                          \<le> real (fst p))
                  (List.product [0..<nat (num_iterations cfg)] vehicles))"
    using read_files_frames [OF rte]
    by (simp add: selected_files_product in_split_def testDataStartIndex_def)
  have "(ite, vehicle) \<in> set (selected_files cfg ''train'' vehicles)
          \<or> (ite, vehicle) \<in> set (selected_files cfg ''test'' vehicles)"
    using assms(5,6) by (auto simp: set_selected_files in_split_def)
  then have "fs (ite + 1) vehicle \<noteq> None"
    using read_files_exist [OF rtr] read_files_exist [OF rte] by fastforce
  then have ex: "\<exists>rows. fs (ite + 1) vehicle = Some rows
             \<and> stamped_file fs (ite, vehicle) = map (\<lambda>r. r\<lparr>VehicleCount := vehicle\<rparr>) rows"
    by (auto simp: stamped_file_def)
  show ?thesis using first ftr fte ex by blast
qed


lemma split_load_train:
  "load_data_set split_records demo_cfg ''train''
     = ([(1, 10)], Inr [[demo_row ''success'' 10 1]])"
  by (simp add: load_data_set_def demo_cfg_def py_range_def selected_files_def in_split_def
      testDataStartIndex_def upt_rec split_records_def demo_row_def)

lemma split_load_test:
  "load_data_set split_records demo_cfg ''test''
     = ([(2, 10)], Inr [[demo_row ''success'' 10 2]])"
  by (simp add: load_data_set_def demo_cfg_def py_range_def selected_files_def in_split_def
      testDataStartIndex_def upt_rec split_records_def demo_row_def)

theorem train_test_split_witness:
  "load_data_set split_records demo_cfg ''train'' = ([(1, 10)], Inr [[demo_row ''success'' 10 1]])
   \<and> load_data_set split_records demo_cfg ''test'' = ([(2, 10)], Inr [[demo_row ''success'' 10 2]])
   \<and> (0 + 1, 10) \<in> set (fst (load_data_set split_records demo_cfg ''train''))
   \<and> (0 + 1, 10) \<notin> set (fst (load_data_set split_records demo_cfg ''test''))
   \<and> real 0 < train_data_ratio demo_cfg * real_of_int (num_iterations demo_cfg) / 100
   \<and> [[demo_row ''success'' 10 1]]
       = map (stamped_file split_records)
           (filter (\<lambda>p. real (fst p)
                      < train_data_ratio demo_cfg * real_of_int (num_iterations demo_cfg) / 100)
              (List.product [0..<nat (num_iterations demo_cfg)] [10]))
   \<and> [[demo_row ''success'' 10 2]]
       = map (stamped_file split_records)
           (filter (\<lambda>p. train_data_ratio demo_cfg * real_of_int (num_iterations demo_cfg) / 100
                      \<le> real (fst p))
              (List.product [0..<nat (num_iterations demo_cfg)] [10]))"
proof -
  have h1: "0 < num_iterations demo_cfg" by (simp add: demo_cfg_def)
  have h2: "py_range (min_vehicle demo_cfg) (max_vehicle demo_cfg + 1) (vehicle_step_size demo_cfg)
              = Inr [10]"
    by (simp add: demo_cfg_def py_range_def)
  have h3: "snd (load_data_set split_records demo_cfg ''train'')
              = Inr [[demo_row ''success'' 10 1]]"
    by (simp add: split_load_train)
  have h4: "snd (load_data_set split_records demo_cfg ''test'')
              = Inr [[demo_row ''success'' 10 2]]"
    by (simp add: split_load_test)
  have h5: "0 < nat (num_iterations demo_cfg)" by (simp add: demo_cfg_def)
  have h6: "(10::int) \<in> set [10]" by simp
  note inst = train_test_split [OF h1 h2 h3 h4 h5 h6]
  have b: "real 0 < train_data_ratio demo_cfg * real_of_int (num_iterations demo_cfg) / 100"
    by (simp add: demo_cfg_def)
  from inst b split_load_train split_load_test show ?thesis by blast
qed

section \<open>Aggregation of a cell with missing samples\<close>

lemma axis0_loop:
  assumes "i < length scenarios" "j < length device_counts"
  shows "axis0 (data_reading_loop fs ro co cp num_simulations scenarios device_counts) i j
           = map (\<lambda>s. cell_value fs ro co cp (Suc s) (scenarios ! i) (device_counts ! j))
                 [0..<num_simulations]"
proof (rule nth_equalityI)
  let ?A = "data_reading_loop fs ro co cp num_simulations scenarios device_counts"
  have len: "length ?A = num_simulations"
    using data_reading_loop_shape [of num_simulations scenarios device_counts fs ro co cp]
    by (simp add: shape3_def)
  show "length (axis0 ?A i j) = length (map (\<lambda>s. cell_value fs ro co cp (Suc s) (scenarios ! i) (device_counts ! j)) [0..<num_simulations])"
    by (simp add: axis0_def len)
  fix s assume "s < length (axis0 ?A i j)"
  then have s: "s < num_simulations" by (simp add: axis0_def len)
  then show "axis0 ?A i j ! s = map (\<lambda>s. cell_value fs ro co cp (Suc s) (scenarios ! i) (device_counts ! j)) [0..<num_simulations] ! s"
    using data_reading_loop_cells [OF s assms, of fs ro co cp] len
    by (simp add: axis0_def get3_def)
qed

lemma results_nth:
  "i < n_scenarios \<Longrightarrow> j < n_steps \<Longrightarrow>
     results A num_simulations n_scenarios n_steps divisor ! i ! j
       = results_cell num_simulations divisor (axis0 A i j)"
  by (simp add: results_def)

lemma min_ci_vals_nth:
  "i < n_scenarios \<Longrightarrow> j < n_steps \<Longrightarrow>
     min_ci_vals ppf A num_simulations n_scenarios n_steps divisor ! i ! j
       = fst (ci_offsets ppf num_simulations divisor (axis0 A i j))"
  by (simp add: min_ci_vals_def)

lemma max_ci_vals_nth:
  "i < n_scenarios \<Longrightarrow> j < n_steps \<Longrightarrow>
     max_ci_vals ppf A num_simulations n_scenarios n_steps divisor ! i ! j
       = snd (ci_offsets ppf num_simulations divisor (axis0 A i j))"
  by (simp add: max_ci_vals_def)

lemma non_nan_all_missing: "(\<forall>x\<in>set col. x = None) \<Longrightarrow> non_nan col = []"
  by (simp add: non_nan_def filter_empty_conv)

lemma ci_offsets_few:
  "length (non_nan col) < 2 \<Longrightarrow> ci_offsets ppf num_simulations divisor col = (Some 0, Some 0)"
  by (simp add: ci_offsets_def Let_def)

lemma results_cell_all_missing:
  assumes "\<forall>x\<in>set col. x = None" "length col = num_simulations"
  shows "results_cell num_simulations divisor col = None"
proof (cases "num_simulations = 1")
  case True
  with assms have "col ! 0 = None" by (cases col) auto
  with True show ?thesis by (simp add: results_cell_def np_div_def)
next
  case False
  then show ?thesis
    using assms(1) by (simp add: results_cell_def np_div_def nanmean_def non_nan_all_missing)
qed

text \<open>
  Claim C3. In the table that the reading loop returns, a cell whose sample is missing
  in every iteration has the reported mean \<open>nan\<close> (not zero) and both interval offsets
  0; and whenever fewer than two samples of a cell are present, both offsets are 0.
\<close>

theorem missing_cell_mean_and_margin:
  assumes "i < length scenarios" and "j < length device_counts"
    and "A = data_reading_loop fs ro co cp num_simulations scenarios device_counts"
  shows "((\<forall>s\<in>{1..num_simulations}.
             cell_value fs ro co cp s (scenarios ! i) (device_counts ! j) = None) \<longrightarrow>
           results A num_simulations (length scenarios) (length device_counts) divisor ! i ! j
             = None
           \<and> min_ci_vals ppf A num_simulations (length scenarios) (length device_counts) divisor
               ! i ! j = Some 0
           \<and> max_ci_vals ppf A num_simulations (length scenarios) (length device_counts) divisor
               ! i ! j = Some 0)
       \<and> (length (non_nan (axis0 A i j)) < 2 \<longrightarrow>
           min_ci_vals ppf A num_simulations (length scenarios) (length device_counts) divisor
               ! i ! j = Some 0
           \<and> max_ci_vals ppf A num_simulations (length scenarios) (length device_counts) divisor
               ! i ! j = Some 0)"
proof -
  have ax: "axis0 A i j = map (\<lambda>s. cell_value fs ro co cp (Suc s) (scenarios ! i) (device_counts ! j))
                 [0..<num_simulations]"
    using axis0_loop [OF assms(1,2)] assms(3) by simp
  have few: "length (non_nan (axis0 A i j)) < 2 \<Longrightarrow>
           min_ci_vals ppf A num_simulations (length scenarios) (length device_counts) divisor
               ! i ! j = Some 0
           \<and> max_ci_vals ppf A num_simulations (length scenarios) (length device_counts) divisor
               ! i ! j = Some 0"
    using assms(1,2) by (simp add: min_ci_vals_nth max_ci_vals_nth ci_offsets_few)
  have allm: "results A num_simulations (length scenarios) (length device_counts) divisor ! i ! j
             = None \<and> length (non_nan (axis0 A i j)) < 2"
    if h: "\<forall>s\<in>{1..num_simulations}.
             cell_value fs ro co cp s (scenarios ! i) (device_counts ! j) = None"
  proof -
    have "\<forall>x\<in>set (axis0 A i j). x = None"
      unfolding ax using h by auto
    moreover have "length (axis0 A i j) = num_simulations" by (simp add: ax)
    ultimately show ?thesis
      using assms(1,2) by (simp add: results_nth results_cell_all_missing non_nan_all_missing)
  qed
  show ?thesis using few allm by blast
qed


lemma cv100: "cell_value demo_store ro 2 [] s ''S'' 100 = None"
  by (simp add: cell_value_def read_cell_def demo_store_def)

lemma cv200:
  "cell_value demo_store (Suc 0) 2 [] s ''S'' 200 = (if s = Suc (Suc 0) then Some 5 else None)"
  by (simp add: cell_value_def read_cell_def demo_store_def demo_log_def read_value_def
      read_csv_row_def iloc0_def numeral_2_eq_2)

lemma demo_axis: 
  "axis0 (data_reading_loop demo_store 1 2 [] 2 [''S''] [100, 200]) 0 1 = [None, Some 5]"
proof -
  have "axis0 (data_reading_loop demo_store 1 2 [] 2 [''S''] [100, 200]) 0 1
          = map (\<lambda>s. cell_value demo_store 1 2 [] (Suc s) ([''S''] ! 0) ([100, 200] ! 1)) [0..<2]"
    by (rule axis0_loop) simp_all
  also have "\<dots> = [None, Some 5]"
    by (simp add: cv200 upt_rec)
  finally show ?thesis .
qed

theorem missing_cell_mean_and_margin_witness:
  "results (data_reading_loop demo_store 1 2 [] 2 [''S''] [100, 200]) 2
        (length [''S'']) (length [100::int, 200]) 1 ! 0 ! 0 = None
   \<and> min_ci_vals demo_ppf (data_reading_loop demo_store 1 2 [] 2 [''S''] [100, 200]) 2
        (length [''S'']) (length [100::int, 200]) 1 ! 0 ! 0 = Some 0
   \<and> max_ci_vals demo_ppf (data_reading_loop demo_store 1 2 [] 2 [''S''] [100, 200]) 2
        (length [''S'']) (length [100::int, 200]) 1 ! 0 ! 0 = Some 0
   \<and> length (non_nan (axis0 (data_reading_loop demo_store 1 2 [] 2 [''S''] [100, 200]) 0 1)) < 2
   \<and> min_ci_vals demo_ppf (data_reading_loop demo_store 1 2 [] 2 [''S''] [100, 200]) 2
        (length [''S'']) (length [100::int, 200]) 1 ! 0 ! 1 = Some 0
   \<and> max_ci_vals demo_ppf (data_reading_loop demo_store 1 2 [] 2 [''S''] [100, 200]) 2
        (length [''S'']) (length [100::int, 200]) 1 ! 0 ! 1 = Some 0"
proof -
  have i: "(0::nat) < length [''S'']" by simp
  have j0: "(0::nat) < length [100::int, 200]" and j1: "(1::nat) < length [100::int, 200]"
    by simp_all
  have h0: "\<forall>s\<in>{1..2}. cell_value demo_store 1 2 [] s ([''S''] ! 0) ([100, 200] ! 0) = None"
    by (simp add: cv100)
  have one: "length (non_nan (axis0 (data_reading_loop demo_store 1 2 [] 2 [''S''] [100, 200]) 0 1)) < 2"
    using demo_axis by (simp add: non_nan_def)
  note inst = missing_cell_mean_and_margin [where fs = demo_store and ro = 1 and co = 2
      and cp = "[]" and num_simulations = 2 and divisor = 1 and ppf = demo_ppf]
  from inst [OF i j0 refl] h0 inst [OF i j1 refl] one
  show ?thesis by blast
qed

section \<open>Percentage of all tasks\<close>

lemma sint_add_fits:
  fixes x y :: "64 word"
  assumes "- (2 ^ 63) \<le> sint x + sint y" and "sint x + sint y < 2 ^ 63"
  shows "sint (x + y) = sint x + sint y"
  using assms by (simp add: sint_word_ariths signed_take_bit_int_eq_self)

lemma sint_times100_fits:
  fixes w :: "64 word"
  assumes "- (2 ^ 63) \<le> 100 * sint w" and "100 * sint w < 2 ^ 63"
  shows "sint (100 * w) = 100 * sint w"
  using assms by (simp add: sint_word_ariths signed_take_bit_int_eq_self)

lemma total_tasks_number:
  assumes "number_of ea = Some a" and "number_of eb = Some b" and "sum_fits ea eb"
  shows "\<exists>tt. total_tasks ea eb = Inr tt \<and> number_of tt = Some (a + b)"
proof (cases ea)
  case ea: (I64 x)
  show ?thesis
  proof (cases eb)
    case (I64 y)
    have "sint (x + y) = sint x + sint y"
      using assms(3) ea I64 by (intro sint_add_fits) simp_all
    then show ?thesis
      using assms(1,2) ea I64 by (simp del: of_int_sint)
  qed (use assms(1,2) ea in \<open>simp_all del: of_int_sint\<close>)
qed (use assms(1,2) in \<open>cases eb; simp del: of_int_sint\<close>)+

lemma to_percentage_number:
  assumes "number_of ev = Some v" and "number_of tt = Some t" and "times100_fits ev"
  shows "\<exists>r. to_percentage ev tt = Inr r
           \<and> as_float r = Inr (Some (if 0 < t then 100 * v / t else 0))"
proof (cases ev)
  case ev: (I64 x)
  have fx: "sint (100 * x) = 100 * sint x"
    using assms(3) ev by (intro sint_times100_fits) simp_all
  show ?thesis
    using assms(1,2) ev fx by (cases tt) (simp_all add: to_percentage_def del: of_int_sint)
next
  case ev: (Num x)
  show ?thesis
    using assms(1,2) ev by (cases tt) (simp_all add: to_percentage_def del: of_int_sint)
qed (use assms(1) in simp_all)

lemma percentage_value:
  assumes "number_of ev = Some v" and "number_of ea = Some a" and "number_of eb = Some b"
    and "times100_fits ev" and "sum_fits ea eb"
  shows "\<exists>tt r. total_tasks ea eb = Inr tt \<and> to_percentage ev tt = Inr r
           \<and> as_float r = Inr (Some (if 0 < a + b then 100 * v / (a + b) else 0))"
proof -
  from total_tasks_number [OF assms(2,3,5)] obtain tt where
    tt: "total_tasks ea eb = Inr tt" "number_of tt = Some (a + b)" by blast
  from to_percentage_number [OF assms(1) tt(2) assms(4)] obtain r where
    "to_percentage ev tt = Inr r"
    "as_float r = Inr (Some (if 0 < a + b then 100 * v / (a + b) else 0))" by blast
  with tt(1) show ?thesis by blast
qed

lemma read_cell_percentage:
  assumes "fs s scenario nd = Some f"
    and "read_csv_row f ro = Inr data" and "iloc0 data (co - 1) = Inr ev"
    and "read_csv_row f 1 = Inr tot" and "iloc0 tot 0 = Inr ea" and "iloc0 tot 1 = Inr eb"
    and "number_of ev = Some v" and "number_of ea = Some a" and "number_of eb = Some b"
    and "times100_fits ev" and "sum_fits ea eb"
  shows "read_cell fs ro co ''percentage_of_all'' s scenario nd
           = Inr (Some (if 0 < a + b then 100 * v / (a + b) else 0))"
proof -
  from percentage_value [OF assms(7-11)] obtain tt r where
    "total_tasks ea eb = Inr tt" "to_percentage ev tt = Inr r"
    "as_float r = Inr (Some (if 0 < a + b then 100 * v / (a + b) else 0))" by blast
  with assms(1-6) show ?thesis
    by (simp add: read_cell_def read_value_def)
qed


text \<open>
  Claim C4, as amended. Let the value and the two totals of a cell be numbers in every
  iteration, with values \<open>v\<close>, \<open>a\<close> and \<open>b\<close>; where the fields are integers, let
  \<open>100 * v\<close> and \<open>a + b\<close> fit into 64 bits. Then the transform of lines 52-53 gives
  \<open>100 * v / (a + b)\<close> when \<open>a + b > 0\<close> and 0 otherwise; it is applied inside the
  reading loop, so the table stores the transformed value of each iteration, and the
  reported mean is taken over these transformed values afterwards.
\<close>

theorem percentage_per_iteration:
  assumes "i < length scenarios" and "j < length device_counts"
    and "A = data_reading_loop fs ro co ''percentage_of_all'' num_simulations scenarios device_counts"
    and "\<forall>s\<in>{1..num_simulations}. \<exists>f data tot.
           fs s (scenarios ! i) (device_counts ! j) = Some f
           \<and> read_csv_row f ro = Inr data \<and> iloc0 data (co - 1) = Inr (ev s)
           \<and> read_csv_row f 1 = Inr tot
           \<and> iloc0 tot 0 = Inr (ea s) \<and> iloc0 tot 1 = Inr (eb s)"
    and "\<forall>s\<in>{1..num_simulations}.
           number_of (ev s) = Some (v s) \<and> number_of (ea s) = Some (a s)
           \<and> number_of (eb s) = Some (b s)
           \<and> times100_fits (ev s) \<and> sum_fits (ea s) (eb s)"
  shows "(\<forall>s\<in>{1..num_simulations}. \<exists>tt r.
             total_tasks (ea s) (eb s) = Inr tt \<and> to_percentage (ev s) tt = Inr r
             \<and> as_float r = Inr (Some (if 0 < a s + b s then 100 * v s / (a s + b s) else 0)))
       \<and> (\<forall>s<num_simulations. get3 A s i j
             = Some (if 0 < a (Suc s) + b (Suc s)
                     then 100 * v (Suc s) / (a (Suc s) + b (Suc s)) else 0))
       \<and> results A num_simulations (length scenarios) (length device_counts) divisor ! i ! j
             = np_div (if num_simulations = 1
                       then Some (if 0 < a 1 + b 1 then 100 * v 1 / (a 1 + b 1) else 0)
                       else nanmean (map (\<lambda>s. Some (if 0 < a (Suc s) + b (Suc s)
                                 then 100 * v (Suc s) / (a (Suc s) + b (Suc s)) else 0))
                              [0..<num_simulations]))
                      divisor"
proof -
  let ?p = "\<lambda>s. if 0 < a s + b s then 100 * v s / (a s + b s) else 0"
  have 1: "\<forall>s\<in>{1..num_simulations}. \<exists>tt r.
             total_tasks (ea s) (eb s) = Inr tt \<and> to_percentage (ev s) tt = Inr r
             \<and> as_float r = Inr (Some (?p s))"
  proof
    fix s assume "s \<in> {1..num_simulations}"
    with assms(5) have "number_of (ev s) = Some (v s)" "number_of (ea s) = Some (a s)"
      "number_of (eb s) = Some (b s)" "times100_fits (ev s)" "sum_fits (ea s) (eb s)"
      by blast+
    then show "\<exists>tt r. total_tasks (ea s) (eb s) = Inr tt \<and> to_percentage (ev s) tt = Inr r
             \<and> as_float r = Inr (Some (?p s))"
      by (rule percentage_value)
  qed
  have cv: "cell_value fs ro co ''percentage_of_all'' (Suc s) (scenarios ! i) (device_counts ! j)
              = Some (?p (Suc s))" if "s < num_simulations" for s
  proof -
    from that have m: "Suc s \<in> {1..num_simulations}" by simp
    with assms(4) obtain f data tot where f:
      "fs (Suc s) (scenarios ! i) (device_counts ! j) = Some f"
      "read_csv_row f ro = Inr data" "iloc0 data (co - 1) = Inr (ev (Suc s))"
      "read_csv_row f 1 = Inr tot"
      "iloc0 tot 0 = Inr (ea (Suc s))" "iloc0 tot 1 = Inr (eb (Suc s))"
      by blast
    from m assms(5) have n: "number_of (ev (Suc s)) = Some (v (Suc s))"
      "number_of (ea (Suc s)) = Some (a (Suc s))" "number_of (eb (Suc s)) = Some (b (Suc s))"
      "times100_fits (ev (Suc s))" "sum_fits (ea (Suc s)) (eb (Suc s))"
      by blast+
    show ?thesis
      using read_cell_percentage [where fs = fs and s = "Suc s" and scenario = "scenarios ! i"
          and nd = "device_counts ! j", OF f n]
      by (simp add: cell_value_def)
  qed
  have 2: "\<forall>s<num_simulations. get3 A s i j = Some (?p (Suc s))"
    using data_reading_loop_cells [OF _ assms(1,2)] cv assms(3) by simp
  have ax: "axis0 A i j = map (\<lambda>s. Some (?p (Suc s))) [0..<num_simulations]"
    using axis0_loop [OF assms(1,2)] assms(3) cv by simp
  have 3: "results A num_simulations (length scenarios) (length device_counts) divisor ! i ! j
             = np_div (if num_simulations = 1 then Some (?p 1)
                       else nanmean (map (\<lambda>s. Some (?p (Suc s))) [0..<num_simulations]))
                      divisor"
    using assms(1,2) by (simp add: results_nth results_cell_def ax)
  show ?thesis using 1 2 3 by blast
qed

lemma count_store_files:
  "\<forall>s\<in>{1..2}. \<exists>f data tot.
           count_store s ([''S''] ! 0) ([200] ! 0) = Some f
           \<and> read_csv_row f 1 = Inr data \<and> iloc0 data (2 - 1) = Inr ((\<lambda>s. I64 5) s)
           \<and> read_csv_row f 1 = Inr tot
           \<and> iloc0 tot 0 = Inr ((\<lambda>s. I64 15) s) \<and> iloc0 tot 1 = Inr ((\<lambda>s. I64 5) s)"
  by (simp add: count_store_def count_log_def read_csv_row_def iloc0_def)

lemma count_store_numbers:
  "\<forall>s\<in>{1..2::nat}.
           number_of ((\<lambda>s. I64 5) s) = Some ((\<lambda>s. 5) s)
           \<and> number_of ((\<lambda>s. I64 15) s) = Some ((\<lambda>s. 15) s)
           \<and> number_of ((\<lambda>s. I64 5) s) = Some ((\<lambda>s. 5) s)
           \<and> times100_fits ((\<lambda>s. I64 5) s) \<and> sum_fits ((\<lambda>s. I64 15) s) ((\<lambda>s. I64 5) s)"
  by simp

theorem percentage_per_iteration_witness:
  "get3 (data_reading_loop count_store 1 2 ''percentage_of_all'' 2 [''S''] [200]) 0 0 0 = Some 25
   \<and> get3 (data_reading_loop count_store 1 2 ''percentage_of_all'' 2 [''S''] [200]) 1 0 0 = Some 25
   \<and> results (data_reading_loop count_store 1 2 ''percentage_of_all'' 2 [''S''] [200]) 2
        (length [''S'']) (length [200::int]) 1 ! 0 ! 0 = Some 25"
proof -
  have i: "(0::nat) < length [''S'']" and j: "(0::nat) < length [200::int]" by simp_all
  note inst = percentage_per_iteration [where fs = count_store and ro = 1 and co = 2
      and num_simulations = 2 and divisor = 1 and v = "\<lambda>s. 5" and a = "\<lambda>s. 15" and b = "\<lambda>s. 5"
      and ev = "\<lambda>s. I64 5" and ea = "\<lambda>s. I64 15" and eb = "\<lambda>s. I64 5",
      OF i j refl count_store_files count_store_numbers]
  have nm: "nanmean [Some 25, Some 25] = Some 25" by (simp add: nanmean_def non_nan_def)
  from inst [THEN conjunct2] nm show ?thesis by (simp add: upt_rec np_div_def)
qed

lemma huge_cell:
  "read_cell huge_store 2 1 ''percentage_of_all'' s ''S'' 200
     = Inr (Some (- 8446744073709551616 / 20))"
  by (simp add: read_cell_def huge_store_def huge_log_def read_value_def read_csv_row_def
      iloc0_def to_percentage_def)

text \<open>
  Claim C4 as stated fails for an integer field whose hundredfold does not fit into 64
  bits: for the count \<open>10^17\<close> and the totals 15 and 5 the product wraps around to
  \<open>-8446744073709551616\<close>, and the cell holds that number divided by 20 instead of
  \<open>100 * 10^17 / 20\<close>.
\<close>

theorem percentage_int64_counterexample:
  "to_percentage (I64 100000000000000000) (I64 (15 + 5))
     = Inr (Num (- 8446744073709551616 / 20))
   \<and> get3 (data_reading_loop huge_store 2 1 ''percentage_of_all'' 1 [''S''] [200]) 0 0 0
       = Some (- 8446744073709551616 / 20)
   \<and> (- 8446744073709551616 / 20 :: real) \<noteq> 100 * 100000000000000000 / (15 + 5)"
proof -
  have 1: "to_percentage (I64 100000000000000000) (I64 (15 + 5))
     = Inr (Num (- 8446744073709551616 / 20))"
    by (simp add: to_percentage_def)
  have s: "(0::nat) < 1" and i: "(0::nat) < length [''S'']" and j: "(0::nat) < length [200::int]"
    by simp_all
  have 2: "get3 (data_reading_loop huge_store 2 1 ''percentage_of_all'' 1 [''S''] [200]) 0 0 0
       = Some (- 8446744073709551616 / 20)"
    using data_reading_loop_cells [OF s i j, of huge_store 2 1 "''percentage_of_all''"]
    by (simp add: cell_value_def huge_cell)
  have 3: "(- 8446744073709551616 / 20 :: real) \<noteq> 100 * 100000000000000000 / (15 + 5)"
    by simp
  from 1 2 3 show ?thesis by blast
qed

section \<open>The confidence interval of a cell\<close>

lemma length_non_nan_le: "length (non_nan col) \<le> length col"
  by (simp add: non_nan_def)

lemma np_std_finite:
  "2 \<le> length xs \<Longrightarrow> np_std (map Some xs) = Some (sample_std xs)"
  by (auto simp: np_std_def comp_def)

lemma ci_offsets_margin:
  assumes len: "length col = num_simulations"
    and xs: "xs = map (\<lambda>x. x / divisor) (non_nan col)"
    and n2: "2 \<le> length xs" and d: "divisor \<noteq> 0" and pos: "0 < sample_std xs"
    and sym: "ppf (1 / 40) (length xs - 1) = - ppf (39 / 40) (length xs - 1)"
  shows "ci_offsets ppf num_simulations divisor col =
           (Some (ppf (39 / 40) (length xs - 1) * sample_std xs / sqrt (real (length xs))),
            Some (ppf (39 / 40) (length xs - 1) * sample_std xs / sqrt (real (length xs))))"
proof -
  have ln: "length (non_nan col) = length xs" by (simp add: xs)
  have ns: "1 < num_simulations"
    using n2 ln length_non_nan_le [of col] len by linarith
  have ne: "non_nan col \<noteq> []" using n2 ln by (cases "non_nan col") auto
  obtain m where m: "np_div (nanmean col) divisor = Some m"
    using ne d by (simp add: nanmean_def np_div_def Let_def)
  have slice: "map (\<lambda>x. np_div (Some x) divisor) (non_nan col) = map Some xs"
    using d by (simp add: xs np_div_def)
  have l0: "0 < length xs" using n2 by linarith
  have sq: "sqrt (real (length xs)) \<noteq> 0" using l0 by simp
  have se: "np_div (np_std (map Some xs)) (sqrt (real (length xs)))
              = Some (sample_std xs / sqrt (real (length xs)))"
    using n2 sq by (simp add: np_std_finite np_div_def)
  have sepos: "0 < sample_std xs / sqrt (real (length xs))"
    using pos l0 by simp
  have ti: "t_interval ppf (95 / 100) (length xs - 1) (Some m)
              (Some (sample_std xs / sqrt (real (length xs))))
            = (Some (- ppf (39 / 40) (length xs - 1) * (sample_std xs / sqrt (real (length xs))) + m),
               Some (ppf (39 / 40) (length xs - 1) * (sample_std xs / sqrt (real (length xs))) + m))"
    using sepos n2 sym by (simp add: t_interval_def)
  show ?thesis
    using ns n2 ti by (simp add: ci_offsets_def Let_def m slice se np_sub_def)
qed

text \<open>
  Where the samples of a cell deviate: for a cell with at least two samples present
  whose sample standard deviation (Bessel's correction, taken after the division by a
  nonzero divisor) is positive, and with a Student quantile function that is symmetric
  at the two levels used (0.025 and 0.975), the two offsets of lines 83 and 84 are
  equal, and equal to \<open>t(0.975, n - 1) * std / sqrt n\<close>.
\<close>

lemma ci_margin_symmetric:
  assumes "i < length scenarios" and "j < length device_counts"
    and "A = data_reading_loop fs ro co cp num_simulations scenarios device_counts"
    and "xs = map (\<lambda>x. x / divisor) (non_nan (axis0 A i j))"
    and "2 \<le> length xs" and "divisor \<noteq> 0" and "0 < sample_std xs"
    and "ppf (1 / 40) (length xs - 1) = - ppf (39 / 40) (length xs - 1)"
  shows "min_ci_vals ppf A num_simulations (length scenarios) (length device_counts) divisor ! i ! j
           = Some (ppf (39 / 40) (length xs - 1) * sample_std xs / sqrt (real (length xs)))
       \<and> max_ci_vals ppf A num_simulations (length scenarios) (length device_counts) divisor ! i ! j
           = Some (ppf (39 / 40) (length xs - 1) * sample_std xs / sqrt (real (length xs)))"
proof -
  have len: "length (axis0 A i j) = num_simulations"
    using axis0_loop [OF assms(1,2)] assms(3) by simp
  show ?thesis
    using assms(1,2) ci_offsets_margin [where ppf = ppf and xs = xs and divisor = divisor,
        OF len assms(4-8)]
    by (simp add: min_ci_vals_nth max_ci_vals_nth)
qed

lemma ramp_axis:
  "axis0 (data_reading_loop ramp_store 0 1 [] 2 [''S''] [200]) 0 0 = [Some 1, Some 3]"
proof -
  have cv: "cell_value ramp_store 0 1 [] s sc nd = Some (2 * real s - 1)" for s sc nd
    by (simp add: cell_value_def read_cell_def ramp_store_def read_value_def
        read_csv_row_def iloc0_def)
  have "axis0 (data_reading_loop ramp_store 0 1 [] 2 [''S''] [200]) 0 0
          = map (\<lambda>s. cell_value ramp_store 0 1 [] (Suc s) ([''S''] ! 0) ([200] ! 0)) [0..<2]"
    by (rule axis0_loop) simp_all
  also have "\<dots> = [Some 1, Some 3]"
    by (simp add: cv upt_rec)
  finally show ?thesis .
qed

lemma sample_std_1_3: "sample_std [1, 3] = sqrt 2"
  by (simp add: sample_std_def sample_mean_def power2_eq_square)

lemma ci_margin_symmetric_example:
  "min_ci_vals demo_ppf (data_reading_loop ramp_store 0 1 [] 2 [''S''] [200]) 2
       (length [''S'']) (length [200::int]) 1 ! 0 ! 0
     = Some (demo_ppf (39 / 40) (length [1::real, 3] - 1) * sample_std [1, 3]
              / sqrt (real (length [1::real, 3])))
   \<and> max_ci_vals demo_ppf (data_reading_loop ramp_store 0 1 [] 2 [''S''] [200]) 2
       (length [''S'']) (length [200::int]) 1 ! 0 ! 0
     = Some (demo_ppf (39 / 40) (length [1::real, 3] - 1) * sample_std [1, 3]
              / sqrt (real (length [1::real, 3])))
   \<and> demo_ppf (39 / 40) (length [1::real, 3] - 1) * sample_std [1, 3]
              / sqrt (real (length [1::real, 3])) = 12706 / 1000"
proof -
  have i: "(0::nat) < length [''S'']" and j: "(0::nat) < length [200::int]" by simp_all
  have xs: "[1, 3] = map (\<lambda>x. x / 1)
              (non_nan (axis0 (data_reading_loop ramp_store 0 1 [] 2 [''S''] [200]) 0 0))"
    by (simp add: ramp_axis non_nan_def)
  have n2: "2 \<le> length [1::real, 3]" by simp
  have d: "(1::real) \<noteq> 0" by simp
  have pos: "0 < sample_std [1, 3]" by (simp add: sample_std_1_3)
  have sym: "demo_ppf (1 / 40) (length [1::real, 3] - 1)
               = - demo_ppf (39 / 40) (length [1::real, 3] - 1)"
    by (simp add: demo_ppf_def)
  have v: "demo_ppf (39 / 40) (length [1::real, 3] - 1) * sample_std [1, 3]
              / sqrt (real (length [1::real, 3])) = 12706 / 1000"
    by (simp add: demo_ppf_def sample_std_1_3)
  from ci_margin_symmetric [where ppf = demo_ppf and xs = "[1, 3]" and divisor = 1
      and fs = ramp_store and ro = 0 and co = 1 and cp = "[]" and num_simulations = 2,
      OF i j refl xs n2 d pos sym] v
  show ?thesis by blast
qed

lemma five_axis:
  "axis0 (data_reading_loop full_store 1 2 [] 2 [''S''] [200]) 0 0 = [Some 5, Some 5]"
proof -
  have cv: "cell_value full_store (Suc 0) 2 [] s sc nd = Some 5" for s sc nd
    by (simp add: cell_value_def read_cell_def full_store_def demo_log_def read_value_def
        read_csv_row_def iloc0_def)
  have "axis0 (data_reading_loop full_store 1 2 [] 2 [''S''] [200]) 0 0
          = map (\<lambda>s. cell_value full_store 1 2 [] (Suc s) ([''S''] ! 0) ([200] ! 0)) [0..<2]"
    by (rule axis0_loop) simp_all
  also have "\<dots> = [Some 5, Some 5]"
    by (simp add: cv upt_rec)
  finally show ?thesis .
qed

lemma sample_std_5_5: "sample_std [5, 5] = 0"
  by (simp add: sample_std_def sample_mean_def)

lemma ci_offsets_5_5: "ci_offsets demo_ppf 2 1 [Some 5, Some 5] = (None, None)"
  by (simp add: ci_offsets_def Let_def non_nan_def np_div_def np_std_def sample_std_5_5
      t_interval_def nanmean_def np_sub_def)

text \<open>
  Claim C1. For a cell with two or more samples present the margin is
  \<open>t(0.975, n - 1) * std / sqrt n\<close>, and both offsets equal it. When the samples
  coincide that margin is 0, the value that the arrays also keep for a cell with fewer
  than two samples. The code misses this case: with the value 5 in both iterations the
  standard error is 0, the interval routine is called with the scale 0 and answers
  \<open>nan\<close>, and both offsets are \<open>nan\<close>.
\<close>

theorem ci_margin_equal_samples:
  "length (non_nan (axis0 (data_reading_loop full_store 1 2 [] 2 [''S''] [200]) 0 0)) = 2
   \<and> demo_ppf (39 / 40) (2 - 1) * sample_std [5, 5] / sqrt 2 = 0
   \<and> min_ci_vals demo_ppf (data_reading_loop full_store 1 2 [] 2 [''S''] [200]) 2 1 1 1 ! 0 ! 0
       = None
   \<and> max_ci_vals demo_ppf (data_reading_loop full_store 1 2 [] 2 [''S''] [200]) 2 1 1 1 ! 0 ! 0
       = None
   \<and> min_ci_vals demo_ppf (data_reading_loop full_store 1 2 [] 2 [''S''] [200]) 2 1 1 1 ! 0 ! 0
       \<noteq> Some (demo_ppf (39 / 40) (2 - 1) * sample_std [5, 5] / sqrt 2)"
  using five_axis
  by (simp add: min_ci_vals_nth max_ci_vals_nth ci_offsets_5_5 non_nan_def sample_std_5_5)

section \<open>Balancing\<close>

lemma filter_concat_keys:
  assumes "distinct ks" and "\<forall>k\<in>set ks. \<forall>r\<in>set (g k). VehicleCount r = k"
  shows "filter (\<lambda>r. VehicleCount r = v) (concat (map g ks)) = (if v \<in> set ks then g v else [])"
  using assms
proof (induction ks)
  case Nil
  then show ?case by simp
next
  case (Cons k ks)
  have rest: "filter (\<lambda>r. VehicleCount r = v) (concat (map g ks)) = (if v \<in> set ks then g v else [])"
    using Cons by simp
  show ?case
  proof (cases "v = k")
    case True
    then have "v \<notin> set ks" using Cons.prems(1) by simp
    moreover have "filter (\<lambda>r. VehicleCount r = v) (g k) = g k"
      using Cons.prems(2) True by (simp add: filter_id_conv)
    ultimately show ?thesis using rest True by simp
  next
    case False
    then have "filter (\<lambda>r. VehicleCount r = v) (g k) = []"
      using Cons.prems(2) by (auto simp: filter_empty_conv)
    then show ?thesis using rest False by simp
  qed
qed

lemma cap_or_keep_mset:
  assumes "draws_without_replacement sample"
  shows "mset (cap_or_keep sample n x) \<subseteq># mset x"
proof (cases "length x < n")
  case True
  then show ?thesis by (simp add: cap_or_keep_def)
next
  case False
  then have "n \<le> length x" by simp
  with assms have "mset (sample n x) \<subseteq># mset x"
    unfolding draws_without_replacement_def by blast
  with False show ?thesis by (simp add: cap_or_keep_def)
qed

lemma cap_or_keep_set:
  assumes "draws_without_replacement sample"
  shows "set (cap_or_keep sample n x) \<subseteq> set x"
  using set_mset_mono [OF cap_or_keep_mset [OF assms, of n x]] by simp

lemma stratum_groupby_apply:
  assumes "draws_without_replacement sample"
  shows "stratum v (groupby_apply (cap_or_keep sample n) df) = cap_or_keep sample n (stratum v df)"
proof -
  let ?ks = "sort (remdups (map VehicleCount df))"
  let ?g = "\<lambda>k. cap_or_keep sample n (stratum k df)"
  have d: "distinct ?ks" by simp
  have vc: "\<forall>k\<in>set ?ks. \<forall>r\<in>set (?g k). VehicleCount r = k"
  proof (intro ballI)
    fix k r assume "r \<in> set (?g k)"
    then have "r \<in> set (stratum k df)" using cap_or_keep_set [OF assms, of n "stratum k df"] by blast
    then show "VehicleCount r = k" by (simp add: stratum_def)
  qed
  have "stratum v (groupby_apply (cap_or_keep sample n) df)
          = filter (\<lambda>r. VehicleCount r = v) (concat (map ?g ?ks))"
    by (simp add: stratum_def groupby_apply_def)
  then have "stratum v (groupby_apply (cap_or_keep sample n) df) = (if v \<in> set ?ks then ?g v else [])"
    using filter_concat_keys [OF d vc, of v] by simp
  moreover have "?g v = []" if "v \<notin> set ?ks"
  proof -
    from that have "stratum v df = []" by (auto simp: stratum_def filter_empty_conv)
    then show ?thesis using cap_or_keep_set [OF assms, of n "[]"] by simp
  qed
  ultimately show ?thesis by auto
qed

lemma set_groupby_apply:
  assumes "draws_without_replacement sample"
  shows "set (groupby_apply (cap_or_keep sample n) df) \<subseteq> set df"
proof
  fix r assume "r \<in> set (groupby_apply (cap_or_keep sample n) df)"
  then obtain k where "r \<in> set (cap_or_keep sample n (stratum k df))"
    by (auto simp: groupby_apply_def)
  then have "r \<in> set (stratum k df)"
    using cap_or_keep_set [OF assms, of n "stratum k df"] by blast
  then show "r \<in> set df" by (simp add: stratum_def)
qed


lemma filter_result_groupby:
  assumes "draws_without_replacement sample"
  shows "filter (\<lambda>r. Result r = c)
           (groupby_apply (cap_or_keep sample n) (filter (\<lambda>r. Result r = c') df))
         = (if c = c' then groupby_apply (cap_or_keep sample n) (filter (\<lambda>r. Result r = c') df)
            else [])"
proof -
  let ?G = "groupby_apply (cap_or_keep sample n) (filter (\<lambda>r. Result r = c') df)"
  have res: "Result r = c'" if "r \<in> set ?G" for r
  proof -
    from that have "r \<in> set (filter (\<lambda>r. Result r = c') df)"
      using set_groupby_apply [OF assms, of n "filter (\<lambda>r. Result r = c') df"] by blast
    then show ?thesis by simp
  qed
  show ?thesis
  proof (cases "c = c'")
    case True
    have "filter (\<lambda>r. Result r = c') ?G = ?G"
      unfolding filter_id_conv using res by blast
    then show ?thesis using True by simp
  next
    case False
    have "filter (\<lambda>r. Result r = c) ?G = []"
      unfolding filter_empty_conv using res False by blast
    then show ?thesis using False by simp
  qed
qed

lemma balance_classifier_stratum:
  assumes "draws_without_replacement sample" and "c = ''fail'' \<or> c = ''success''"
  shows "stratum v (filter (\<lambda>r. Result r = c) (balance sample ''classifier'' mv data_set))
         = cap_or_keep sample
             (length (stratum mv (filter (\<lambda>r. Result r = ''fail'') data_set)) div 2)
             (stratum v (filter (\<lambda>r. Result r = c) data_set))"
proof -
  let ?n = "length (stratum mv (filter (\<lambda>r. Result r = ''fail'') data_set)) div 2"
  let ?gb = "\<lambda>c'. groupby_apply (cap_or_keep sample ?n) (filter (\<lambda>r. Result r = c') data_set)"
  have out: "balance sample ''classifier'' mv data_set = ?gb ''fail'' @ ?gb ''success''"
    by (simp add: balance_def Let_def)
  have f: "filter (\<lambda>r. Result r = c) (?gb c') = (if c = c' then ?gb c' else [])" for c'
    by (rule filter_result_groupby [OF assms(1)])
  have "filter (\<lambda>r. Result r = c) (balance sample ''classifier'' mv data_set) = ?gb c"
  proof (cases "c = ''fail''")
    case True
    have "filter (\<lambda>r. Result r = c) (?gb ''fail'' @ ?gb ''success'') = ?gb ''fail''"
      unfolding filter_append f using True by simp
    then show ?thesis using True out by simp
  next
    case False
    with assms(2) have c: "c = ''success''" by simp
    have "filter (\<lambda>r. Result r = c) (?gb ''fail'' @ ?gb ''success'') = ?gb ''success''"
      unfolding filter_append f using c by simp
    then show ?thesis using c out by simp
  qed
  then show ?thesis
    by (simp only: stratum_groupby_apply [OF assms(1)])
qed

lemma balance_regression_stratum:
  assumes "draws_without_replacement sample" and "method \<noteq> ''classifier''"
  shows "stratum v (balance sample method mv data_set)
         = cap_or_keep sample
             (length (stratum mv (filter (\<lambda>r. Result r = ''success'') data_set)) div 3)
             (stratum v (filter (\<lambda>r. Result r = ''success'') data_set))"
proof -
  have "balance sample method mv data_set
          = groupby_apply (cap_or_keep sample
              (length (stratum mv (filter (\<lambda>r. Result r = ''success'') data_set)) div 3))
              (filter (\<lambda>r. Result r = ''success'') data_set)"
    using assms(2) by (simp add: balance_def Let_def)
  then show ?thesis
    by (simp only: stratum_groupby_apply [OF assms(1)])
qed

lemma capped:
  assumes "draws_without_replacement sample" and "outp = cap_or_keep sample n inp"
  shows "length outp \<le> length inp
     \<and> (length inp < n \<longrightarrow> outp = inp)
     \<and> (n \<le> length inp \<longrightarrow> length outp = n \<and> mset outp \<subseteq># mset inp)"
proof (cases "length inp < n")
  case True
  then show ?thesis using assms(2) by (simp add: cap_or_keep_def)
next
  case False
  then have le: "n \<le> length inp" by simp
  with assms(1) have "length (sample n inp) = n \<and> mset (sample n inp) \<subseteq># mset inp"
    unfolding draws_without_replacement_def by blast
  then show ?thesis using False le assms(2) by (simp add: cap_or_keep_def)
qed

text \<open>
  Claim C2. In classifier mode, for each of the two result classes, and in regression
  mode for the successful rows, every stratum (rows of one vehicle count) of the
  balanced dataset is no larger than the same stratum of the input; it is the input
  stratum itself when that has fewer rows than the cap, and otherwise it has exactly
  cap rows, drawn from the input stratum without replacement.
\<close>

theorem balancer_caps_every_stratum:
  assumes "draws_without_replacement sample"
    and "c = ''fail'' \<or> c = ''success''"
    and "method \<noteq> ''classifier''"
  shows "(let size' = length (stratum mv (filter (\<lambda>r. Result r = ''fail'') data_set)) div 2;
              inp = stratum v (filter (\<lambda>r. Result r = c) data_set);
              outp = stratum v (filter (\<lambda>r. Result r = c)
                                  (balance sample ''classifier'' mv data_set))
          in length outp \<le> length inp
             \<and> (length inp < size' \<longrightarrow> outp = inp)
             \<and> (size' \<le> length inp \<longrightarrow> length outp = size' \<and> mset outp \<subseteq># mset inp))
       \<and> (let size' = length (stratum mv (filter (\<lambda>r. Result r = ''success'') data_set)) div 3;
              inp = stratum v (filter (\<lambda>r. Result r = ''success'') data_set);
              outp = stratum v (balance sample method mv data_set)
          in length outp \<le> length inp
             \<and> (length inp < size' \<longrightarrow> outp = inp)
             \<and> (size' \<le> length inp \<longrightarrow> length outp = size' \<and> mset outp \<subseteq># mset inp))"
  unfolding Let_def
  using capped [OF assms(1) balance_classifier_stratum [OF assms(1,2)]]
        capped [OF assms(1) balance_regression_stratum [OF assms(1,3)]]
  by blast


lemma take_draws: "draws_without_replacement take"
proof -
  have "mset (take k x) \<subseteq># mset x" for k and x :: "sim_row list"
  proof -
    have "mset x = mset (take k x) + mset (drop k x)"
      by (metis append_take_drop_id mset_append)
    then show ?thesis by simp
  qed
  then show ?thesis by (simp add: draws_without_replacement_def)
qed

lemma demo_counts:
  "length (stratum 20 (filter (\<lambda>r. Result r = ''fail'') demo_rows)) = 4"
  "length (stratum 10 (filter (\<lambda>r. Result r = ''success'') demo_rows)) = 1"
  "length (stratum 20 (filter (\<lambda>r. Result r = ''success'') demo_rows)) = 3"
  by (simp_all add: demo_rows_def demo_row_def stratum_def)

theorem balancer_caps_every_stratum_witness:
  "draws_without_replacement take
   \<and> stratum 10 (filter (\<lambda>r. Result r = ''success'') (balance take ''classifier'' 20 demo_rows))
       = stratum 10 (filter (\<lambda>r. Result r = ''success'') demo_rows)
   \<and> length (stratum 20 (filter (\<lambda>r. Result r = ''fail'')
                 (balance take ''classifier'' 20 demo_rows))) = 2
   \<and> length (stratum 20 (balance take ''regression'' 20 demo_rows)) = 1"
proof -
  have c1: "''success'' = ''fail'' \<or> ''success'' = ''success''" by simp
  have c2: "''fail'' = ''fail'' \<or> ''fail'' = ''success''" by simp
  have m: "''regression'' \<noteq> ''classifier''" by simp
  note a = balancer_caps_every_stratum [OF take_draws c1 m, where mv = 20 and v = 10
      and data_set = demo_rows, unfolded Let_def]
  note b = balancer_caps_every_stratum [OF take_draws c2 m, where mv = 20 and v = 20
      and data_set = demo_rows, unfolded Let_def]
  from a have 1: "stratum 10 (filter (\<lambda>r. Result r = ''success'')
                     (balance take ''classifier'' 20 demo_rows))
       = stratum 10 (filter (\<lambda>r. Result r = ''success'') demo_rows)"
    by (simp add: demo_counts)
  from b have 2: "length (stratum 20 (filter (\<lambda>r. Result r = ''fail'')
                 (balance take ''classifier'' 20 demo_rows))) = 2"
    by (simp add: demo_counts)
  from b have 3: "length (stratum 20 (balance take ''regression'' 20 demo_rows)) = 1"
    by (simp add: demo_counts)
  from take_draws 1 2 3 show ?thesis by blast
qed

section \<open>Normalization\<close>

lemma convert_success:
  assumes "load_data_set fs cfg data_type = (trace, Inr frames)" and "frames \<noteq> []"
    and "getDecisionColumnName target = Inr name"
    and "targetColumns method target = Inr columns"
  shows "convert sample fmt fs cfg target method data_type =
           (trace, Inr (arff_lines fmt target columns
                          (balance sample method (max_vehicle cfg)
                             (filter (\<lambda>r. Decision r = name) (concat frames)))))"
  using assms by (simp add: convert_def pd_concat_def)

lemma znorm_nth:
  assumes "k < length column" and "column ! k = Some v"
    and "2 \<le> length (non_nan column)" and "sample_std (non_nan column) \<noteq> 0"
  shows "znorm column ! k
           = Some ((v - sample_mean (non_nan column)) / sample_std (non_nan column))"
proof -
  have ne: "non_nan column \<noteq> []" using assms(3) by (cases "non_nan column") auto
  have sd: "pd_std column = Some (sample_std (non_nan column))"
    using assms(3) by (simp add: pd_std_def Let_def)
  have mn: "pd_mean column = Some (sample_mean (non_nan column))"
    using ne by (simp add: pd_mean_def nanmean_def Let_def sample_mean_def)
  show ?thesis
    using assms(1,2,4) by (simp add: znorm_def sd mn np_sub_def np_div_def)
qed

text \<open>
  Claim C8. When the script reaches the export, the exported frame is built from the
  whole balanced dataset; it has exactly the selected columns, in their order; the
  columns \<open>Result\<close> and \<open>ServiceTime\<close> are copied unchanged; and in every other
  column a value \<open>v\<close> becomes \<open>(v - mean) / std\<close>, with the mean and the standard
  deviation (Bessel's correction) of that column over the whole balanced dataset.
\<close>

theorem normalization_over_balanced_dataset:
  assumes "load_data_set fs cfg data_type = (trace, Inr frames)" and "frames \<noteq> []"
    and "getDecisionColumnName target = Inr name"
    and "targetColumns method target = Inr columns"
    and "data_set = balance sample method (max_vehicle cfg)
                      (filter (\<lambda>r. Decision r = name) (concat frames))"
    and "df = extract_attributes columns data_set"
  shows "convert sample fmt fs cfg target method data_type
           = (trace, Inr (arff_lines fmt target columns data_set))
       \<and> map fst df = columns
       \<and> (\<forall>c\<in>set columns. map_of df c = Some (extract_column c data_set))
       \<and> extract_column ''Result'' data_set = map (\<lambda>r. Label (Result r)) data_set
       \<and> extract_column ''ServiceTime'' data_set
           = map (\<lambda>r. Number (metric r ''ServiceTime'')) data_set
       \<and> (\<forall>c k v. c \<noteq> ''Result'' \<longrightarrow> c \<noteq> ''ServiceTime'' \<longrightarrow> k < length data_set \<longrightarrow>
             metric (data_set ! k) c = Some v \<longrightarrow>
             2 \<le> length (non_nan (map (\<lambda>r. metric r c) data_set)) \<longrightarrow>
             sample_std (non_nan (map (\<lambda>r. metric r c) data_set)) \<noteq> 0 \<longrightarrow>
             extract_column c data_set ! k
               = Number (Some ((v - sample_mean (non_nan (map (\<lambda>r. metric r c) data_set)))
                               / sample_std (non_nan (map (\<lambda>r. metric r c) data_set)))))"
proof -
  have 1: "convert sample fmt fs cfg target method data_type
           = (trace, Inr (arff_lines fmt target columns data_set))"
    using convert_success [OF assms(1-4)] assms(5) by simp
  have 2: "map fst df = columns"
    by (simp add: assms(6) extract_attributes_def comp_def)
  have 3: "\<forall>c\<in>set columns. map_of df c = Some (extract_column c data_set)"
    unfolding assms(6) extract_attributes_def
    by (induction columns) auto
  have 4: "extract_column ''Result'' data_set = map (\<lambda>r. Label (Result r)) data_set"
    by (simp add: extract_column_def)
  have 5: "extract_column ''ServiceTime'' data_set
           = map (\<lambda>r. Number (metric r ''ServiceTime'')) data_set"
    by (simp add: extract_column_def)
  have 6: "extract_column c data_set ! k
               = Number (Some ((v - sample_mean (non_nan (map (\<lambda>r. metric r c) data_set)))
                               / sample_std (non_nan (map (\<lambda>r. metric r c) data_set))))"
    if "c \<noteq> ''Result''" "c \<noteq> ''ServiceTime''" "k < length data_set"
      "metric (data_set ! k) c = Some v"
      "2 \<le> length (non_nan (map (\<lambda>r. metric r c) data_set))"
      "sample_std (non_nan (map (\<lambda>r. metric r c) data_set)) \<noteq> 0" for c k v
  proof -
    have len: "length (znorm (map (\<lambda>r. metric r c) data_set)) = length data_set"
      by (simp add: znorm_def)
    have "znorm (map (\<lambda>r. metric r c) data_set) ! k
            = Some ((v - sample_mean (non_nan (map (\<lambda>r. metric r c) data_set)))
                               / sample_std (non_nan (map (\<lambda>r. metric r c) data_set)))"
      using that by (intro znorm_nth) simp_all
    then show ?thesis
      using that(1-3) len by (simp add: extract_column_def)
  qed
  show ?thesis using 1 2 3 4 5 6 by blast
qed


lemma demo_load_train:
  "load_data_set demo_records demo_cfg2 ''train''
     = ([(1, 10), (1, 20)],
        Inr [[demo_row ''success'' 10 1],
             [demo_row ''success'' 20 3, demo_row ''success'' 20 5, demo_row ''success'' 20 6,
              demo_row ''fail'' 20 7, demo_row ''fail'' 20 9]])"
  by (simp add: load_data_set_def demo_cfg2_def py_range_def selected_files_def in_split_def
      testDataStartIndex_def upt_rec demo_records_def demo_row_def)

lemma demo_balanced_regression:
  "balance take ''regression'' 20
     (filter (\<lambda>r. Decision r = ''EDGE'')
        (concat [[demo_row ''success'' 10 1],
             [demo_row ''success'' 20 3, demo_row ''success'' 20 5, demo_row ''success'' 20 6,
              demo_row ''fail'' 20 7, demo_row ''fail'' 20 9]]))
     = [demo_row ''success'' 10 1, demo_row ''success'' 20 3]"
  by (simp add: balance_def Let_def groupby_apply_def stratum_def cap_or_keep_def demo_row_def)


lemma demo_regression_columns:
  "targetColumns ''regression'' ''edge'' = Inr [''TaskLength'', ''AvgEdgeUtilization'', ''ServiceTime'']"
  by (simp add: targetColumns_def getRegressionColumns_def)

lemma demo_task_length:
  "non_nan (map (\<lambda>r. metric r ''TaskLength'') [demo_row ''success'' 10 1, demo_row ''success'' 20 3])
     = [1, 3]"
  by (simp add: non_nan_def demo_row_def)

theorem normalization_over_balanced_dataset_witness:
  "convert take demo_fmt demo_records demo_cfg2 ''edge'' ''regression'' ''train''
     = ([(1, 10), (1, 20)],
        Inr (arff_lines demo_fmt ''edge'' [''TaskLength'', ''AvgEdgeUtilization'', ''ServiceTime'']
               [demo_row ''success'' 10 1, demo_row ''success'' 20 3]))
   \<and> extract_column ''ServiceTime'' [demo_row ''success'' 10 1, demo_row ''success'' 20 3]
       = [Number (Some 1), Number (Some 3)]
   \<and> extract_column ''TaskLength'' [demo_row ''success'' 10 1, demo_row ''success'' 20 3] ! 0
       = Number (Some ((1 - sample_mean [1, 3]) / sample_std [1, 3]))
   \<and> (1 - sample_mean [1, 3]) / sample_std [1, 3] = - 1 / sqrt 2"
proof -
  have fr: "[[demo_row ''success'' 10 1],
             [demo_row ''success'' 20 3, demo_row ''success'' 20 5, demo_row ''success'' 20 6,
              demo_row ''fail'' 20 7, demo_row ''fail'' 20 9]] \<noteq> []" by simp
  have nm: "getDecisionColumnName ''edge'' = Inr ''EDGE''"
    by (simp add: getDecisionColumnName_def)
  have ds: "[demo_row ''success'' 10 1, demo_row ''success'' 20 3]
      = balance take ''regression'' (max_vehicle demo_cfg2)
          (filter (\<lambda>r. Decision r = ''EDGE'')
             (concat [[demo_row ''success'' 10 1],
               [demo_row ''success'' 20 3, demo_row ''success'' 20 5, demo_row ''success'' 20 6,
                demo_row ''fail'' 20 7, demo_row ''fail'' 20 9]]))"
    using demo_balanced_regression by (simp add: demo_cfg2_def)
  note inst = normalization_over_balanced_dataset [OF demo_load_train fr nm
      demo_regression_columns ds refl, where fmt = demo_fmt]
  have k: "(0::nat) < length [demo_row ''success'' 10 1, demo_row ''success'' 20 3]" by simp
  have v: "metric ([demo_row ''success'' 10 1, demo_row ''success'' 20 3] ! 0) ''TaskLength''
             = Some 1"
    by (simp add: demo_row_def)
  have n2: "2 \<le> length (non_nan (map (\<lambda>r. metric r ''TaskLength'')
                 [demo_row ''success'' 10 1, demo_row ''success'' 20 3]))"
    using demo_task_length by simp
  have sd: "sample_std (non_nan (map (\<lambda>r. metric r ''TaskLength'')
                 [demo_row ''success'' 10 1, demo_row ''success'' 20 3])) \<noteq> 0"
    using demo_task_length by (simp add: sample_std_1_3)
  have c: "''TaskLength'' \<noteq> ''Result''" "''TaskLength'' \<noteq> ''ServiceTime''" by simp_all
  note 1 = inst [THEN conjunct1]
  note 2 = inst [THEN conjunct2, THEN conjunct2, THEN conjunct2, THEN conjunct2, THEN conjunct1]
  note 3 = inst [THEN conjunct2, THEN conjunct2, THEN conjunct2, THEN conjunct2, THEN conjunct2,
      rule_format, OF c k v n2 sd]
  have e2: "extract_column ''ServiceTime'' [demo_row ''success'' 10 1, demo_row ''success'' 20 3]
       = [Number (Some 1), Number (Some 3)]"
    unfolding 2 by (simp add: demo_row_def)
  have e3: "extract_column ''TaskLength'' [demo_row ''success'' 10 1, demo_row ''success'' 20 3] ! 0
       = Number (Some ((1 - sample_mean [1, 3]) / sample_std [1, 3]))"
    unfolding 3 demo_task_length ..
  have 4: "(1 - sample_mean [1, 3]) / sample_std [1, 3] = - 1 / sqrt 2"
    by (simp add: sample_std_1_3 sample_mean_def)
  from 1 e2 e3 4 show ?thesis by blast
qed

section \<open>A column without deviation\<close>

lemma znorm_zero_std:
  assumes "pd_std column = Some 0"
  shows "znorm column = replicate (length column) None"
proof -
  have "np_div x 0 = None" for x
    by (cases x) (simp_all add: np_div_def)
  then show ?thesis
    using assms by (simp add: znorm_def map_replicate_const)
qed

text \<open>
  Claim C5, as amended. For a feature column whose standard deviation over the balanced
  dataset is 0, the normalization raises nothing: \<open>znorm\<close> returns a column of the same
  length in which every entry is \<open>nan\<close>, and the script goes on to export the frame.
\<close>

theorem zero_deviation_is_silent:
  assumes "load_data_set fs cfg data_type = (trace, Inr frames)" and "frames \<noteq> []"
    and "getDecisionColumnName target = Inr name"
    and "targetColumns method target = Inr columns"
    and "data_set = balance sample method (max_vehicle cfg)
                      (filter (\<lambda>r. Decision r = name) (concat frames))"
    and "c \<noteq> ''Result''" and "c \<noteq> ''ServiceTime''"
    and "pd_std (map (\<lambda>r. metric r c) data_set) = Some 0"
  shows "znorm (map (\<lambda>r. metric r c) data_set) = replicate (length data_set) None
       \<and> extract_column c data_set = replicate (length data_set) (Number None)
       \<and> convert sample fmt fs cfg target method data_type
           = (trace, Inr (arff_lines fmt target columns data_set))"
proof -
  have z: "znorm (map (\<lambda>r. metric r c) data_set) = replicate (length data_set) None"
    using znorm_zero_std [OF assms(8)] by simp
  have e: "extract_column c data_set = replicate (length data_set) (Number None)"
    using assms(6,7) by (simp add: extract_column_def z)
  show ?thesis
    using z e convert_success [OF assms(1-4), of sample fmt] assms(5) by simp
qed

lemma flat_load_train:
  "load_data_set flat_records demo_cfg2 ''train''
     = ([(1, 10), (1, 20)],
        Inr [[demo_row ''success'' 10 4],
             [demo_row ''success'' 20 4, demo_row ''success'' 20 4, demo_row ''success'' 20 4]])"
  by (simp add: load_data_set_def demo_cfg2_def py_range_def selected_files_def in_split_def
      testDataStartIndex_def upt_rec flat_records_def demo_row_def)

lemma flat_balanced_regression:
  "balance take ''regression'' 20
     (filter (\<lambda>r. Decision r = ''EDGE'')
        (concat [[demo_row ''success'' 10 4],
             [demo_row ''success'' 20 4, demo_row ''success'' 20 4, demo_row ''success'' 20 4]]))
     = [demo_row ''success'' 10 4, demo_row ''success'' 20 4]"
  by (simp add: balance_def Let_def groupby_apply_def stratum_def cap_or_keep_def demo_row_def)

lemma sample_std_4_4: "sample_std [4, 4] = 0"
  by (simp add: sample_std_def sample_mean_def)

lemma flat_std:
  "pd_std (map (\<lambda>r. metric r ''TaskLength'') [demo_row ''success'' 10 4, demo_row ''success'' 20 4])
     = Some 0"
  by (simp add: pd_std_def non_nan_def demo_row_def sample_std_4_4)

theorem zero_deviation_is_silent_witness:
  "pd_std (map (\<lambda>r. metric r ''TaskLength'') [demo_row ''success'' 10 4, demo_row ''success'' 20 4])
     = Some 0
   \<and> extract_column ''TaskLength'' [demo_row ''success'' 10 4, demo_row ''success'' 20 4]
       = replicate (length [demo_row ''success'' 10 4, demo_row ''success'' 20 4]) (Number None)
   \<and> convert take demo_fmt flat_records demo_cfg2 ''edge'' ''regression'' ''train''
       = ([(1, 10), (1, 20)],
          Inr (arff_lines demo_fmt ''edge'' [''TaskLength'', ''AvgEdgeUtilization'', ''ServiceTime'']
                 [demo_row ''success'' 10 4, demo_row ''success'' 20 4]))"
proof -
  have fr: "[[demo_row ''success'' 10 4],
             [demo_row ''success'' 20 4, demo_row ''success'' 20 4, demo_row ''success'' 20 4]]
            \<noteq> []" by simp
  have nm: "getDecisionColumnName ''edge'' = Inr ''EDGE''"
    by (simp add: getDecisionColumnName_def)
  have ds: "[demo_row ''success'' 10 4, demo_row ''success'' 20 4]
      = balance take ''regression'' (max_vehicle demo_cfg2)
          (filter (\<lambda>r. Decision r = ''EDGE'')
             (concat [[demo_row ''success'' 10 4],
               [demo_row ''success'' 20 4, demo_row ''success'' 20 4, demo_row ''success'' 20 4]]))"
    using flat_balanced_regression by (simp add: demo_cfg2_def)
  have c: "''TaskLength'' \<noteq> ''Result''" "''TaskLength'' \<noteq> ''ServiceTime''" by simp_all
  note inst = zero_deviation_is_silent [OF flat_load_train fr nm demo_regression_columns ds c
      flat_std, where fmt = demo_fmt]
  from inst flat_std show ?thesis by blast
qed

text \<open>
  Claim C5 as stated fails: with the value 4 in every row the deviation of
  \<open>TaskLength\<close> is 0, the normalized column is \<open>nan\<close> throughout, and the run ends
  without an error.
\<close>

theorem zero_deviation_counterexample:
  "pd_std (map (\<lambda>r. metric r ''TaskLength'') [demo_row ''success'' 10 4, demo_row ''success'' 20 4])
     = Some 0
   \<and> extract_column ''TaskLength'' [demo_row ''success'' 10 4, demo_row ''success'' 20 4]
       = [Number None, Number None]
   \<and> \<not> isl (snd (convert take demo_fmt flat_records demo_cfg2 ''edge'' ''regression'' ''train''))"
proof -
  have fr: "[[demo_row ''success'' 10 4],
             [demo_row ''success'' 20 4, demo_row ''success'' 20 4, demo_row ''success'' 20 4]]
            \<noteq> []" by simp
  have nm: "getDecisionColumnName ''edge'' = Inr ''EDGE''"
    by (simp add: getDecisionColumnName_def)
  have z: "znorm (map (\<lambda>r. metric r ''TaskLength'')
              [demo_row ''success'' 10 4, demo_row ''success'' 20 4]) = [None, None]"
    using znorm_zero_std [OF flat_std] by simp
  have e: "extract_column ''TaskLength'' [demo_row ''success'' 10 4, demo_row ''success'' 20 4]
       = [Number None, Number None]"
    using z by (simp add: extract_column_def)
  have "\<not> isl (snd (convert take demo_fmt flat_records demo_cfg2 ''edge'' ''regression'' ''train''))"
    by (simp add: convert_success [OF flat_load_train fr nm demo_regression_columns])
  with flat_std e show ?thesis by blast
qed

section \<open>An unknown target\<close>

lemma read_files_length:
  "snd (read_files fs ps) = Inr frames \<Longrightarrow> length frames = length ps"
proof (induction ps arbitrary: frames)
  case Nil
  then show ?case by simp
next
  case (Cons p ps)
  obtain ite vehicle where p: "p = (ite, vehicle)" by (cases p)
  from Cons.prems p obtain rows where rows: "fs (ite + 1) vehicle = Some rows"
    by (cases "fs (ite + 1) vehicle") auto
  obtain tr r where rf: "read_files fs ps = (tr, r)" by (cases "read_files fs ps")
  from Cons.prems p rows rf obtain fr where r: "r = Inr fr"
    by (cases r) auto
  with Cons.IH rf have "length fr = length ps" by simp
  with Cons.prems p rows rf r show ?case by auto
qed

lemma load_data_set_trace_length:
  assumes "snd (load_data_set fs cfg data_type) = Inr frames"
  shows "length (fst (load_data_set fs cfg data_type)) = length frames"
proof (cases "num_iterations cfg \<le> 0")
  case True
  with assms show ?thesis by (simp add: load_data_set_def)
next
  case False
  show ?thesis
  proof (cases "py_range (min_vehicle cfg) (max_vehicle cfg + 1) (vehicle_step_size cfg)")
    case (Inl e)
    with False assms show ?thesis by (simp add: load_data_set_def)
  next
    case (Inr vehicles)
    with False have ld: "load_data_set fs cfg data_type
        = read_files fs (selected_files cfg data_type vehicles)"
      by (simp add: load_data_set_def)
    with assms have s: "snd (read_files fs (selected_files cfg data_type vehicles)) = Inr frames"
      by simp
    show ?thesis
      unfolding ld using read_files_trace [OF s] read_files_length [OF s] by simp
  qed
qed

text \<open>
  Claim C6, as amended. For a target other than \<open>edge\<close>, \<open>cloud_rsu\<close> and
  \<open>cloud_gsm\<close> the run always ends in an error and exports nothing, but the error comes
  after the reading loop: the files read are those that the loop reads for any target,
  and when the loop has loaded at least one file the error is the unbound local
  variable of \<open>getDecisionColumnName\<close>, raised at the decision filter of line 71.
\<close>

theorem unknown_target_fails_after_reading:
  assumes "target \<noteq> ''edge''" and "target \<noteq> ''cloud_rsu''" and "target \<noteq> ''cloud_gsm''"
  shows "isl (snd (convert sample fmt fs cfg target method data_type))
       \<and> fst (convert sample fmt fs cfg target method data_type)
           = fst (load_data_set fs cfg data_type)
       \<and> (\<forall>frames. snd (load_data_set fs cfg data_type) = Inr frames \<longrightarrow> frames \<noteq> [] \<longrightarrow>
             snd (convert sample fmt fs cfg target method data_type) = Inl UnboundLocalError
             \<and> fst (convert sample fmt fs cfg target method data_type) \<noteq> [])"
proof -
  have nm: "getDecisionColumnName target = Inl UnboundLocalError"
    using assms by (simp add: getDecisionColumnName_def)
  obtain trace r where ld: "load_data_set fs cfg data_type = (trace, r)"
    by (cases "load_data_set fs cfg data_type")
  have 1: "isl (snd (convert sample fmt fs cfg target method data_type))"
    by (cases r) (simp_all add: convert_def ld nm pd_concat_def)
  have 2: "fst (convert sample fmt fs cfg target method data_type)
           = fst (load_data_set fs cfg data_type)"
    by (cases r) (simp_all add: convert_def ld)
  have 3: "snd (convert sample fmt fs cfg target method data_type) = Inl UnboundLocalError
             \<and> fst (convert sample fmt fs cfg target method data_type) \<noteq> []"
    if "snd (load_data_set fs cfg data_type) = Inr frames" "frames \<noteq> []" for frames
  proof -
    from that(1) ld have r: "r = Inr frames" by simp
    have "length trace = length frames"
      using load_data_set_trace_length [OF that(1)] ld by simp
    with that(2) have "trace \<noteq> []" by auto
    then show ?thesis
      using that(2) by (simp add: convert_def ld r nm pd_concat_def)
  qed
  show ?thesis using 1 2 3 by blast
qed

theorem unknown_target_fails_after_reading_witness:
  "isl (snd (convert take demo_fmt demo_records demo_cfg2 ''bogus'' ''regression'' ''train''))
   \<and> fst (convert take demo_fmt demo_records demo_cfg2 ''bogus'' ''regression'' ''train'')
       = fst (load_data_set demo_records demo_cfg2 ''train'')
   \<and> fst (load_data_set demo_records demo_cfg2 ''train'') = [(1, 10), (1, 20)]"
proof -
  have t: "''bogus'' \<noteq> ''edge''" "''bogus'' \<noteq> ''cloud_rsu''" "''bogus'' \<noteq> ''cloud_gsm''"
    by simp_all
  note inst = unknown_target_fails_after_reading [of "''bogus''" take demo_fmt demo_records
      demo_cfg2 "''regression''" "''train''", OF t]
  have l: "fst (load_data_set demo_records demo_cfg2 ''train'') = [(1, 10), (1, 20)]"
    by (simp add: demo_load_train)
  from inst [THEN conjunct1] inst [THEN conjunct2, THEN conjunct1] l show ?thesis by blast
qed

text \<open>
  Claim C6 as stated fails: for the target \<open>bogus\<close> both record files of the train
  split are read before the error is raised.
\<close>

theorem unknown_target_counterexample:
  "convert take demo_fmt demo_records demo_cfg2 ''bogus'' ''regression'' ''train''
     = ([(1, 10), (1, 20)], Inl UnboundLocalError)"
  by (simp add: convert_def demo_load_train pd_concat_def getDecisionColumnName_def)

section \<open>The exported file\<close>

lemma split_commas_word: "CHR '','' \<notin> set w \<Longrightarrow> split_commas w = [w]"
  by (induction w) auto

lemma split_commas_append:
  "CHR '','' \<notin> set w \<Longrightarrow> split_commas (w @ CHR '','' # rest) = w # split_commas rest"
  by (induction w) auto

lemma split_join_commas:
  "ws \<noteq> [] \<Longrightarrow> \<forall>w\<in>set ws. CHR '','' \<notin> set w \<Longrightarrow>
     split_commas (join_commas ws) = ws"
proof (induction ws rule: join_commas.induct)
  case 1
  then show ?case by simp
next
  case (2 x)
  then show ?case by (simp add: split_commas_word)
next
  case (3 x y ys)
  then show ?case by (simp add: split_commas_append)
qed

lemma targetColumns_nonempty: "targetColumns method target = Inr columns \<Longrightarrow> columns \<noteq> []"
  by (auto simp: targetColumns_def getClassifierColumns_def getRegressionColumns_def
      split: if_splits)

lemma targetColumns_Result:
  "targetColumns method target = Inr columns \<Longrightarrow> ''Result'' \<in> set columns \<Longrightarrow>
     method = ''classifier''"
  by (auto simp: targetColumns_def getClassifierColumns_def getRegressionColumns_def
      split: if_splits)

lemma balance_classifier_results:
  assumes "draws_without_replacement sample"
    and "r \<in> set (balance sample ''classifier'' mv data)"
  shows "Result r = ''fail'' \<or> Result r = ''success''"
proof -
  let ?n = "length (stratum mv (filter (\<lambda>r. Result r = ''fail'') data)) div 2"
  let ?gb = "\<lambda>c'. groupby_apply (cap_or_keep sample ?n) (filter (\<lambda>r. Result r = c') data)"
  have "balance sample ''classifier'' mv data = ?gb ''fail'' @ ?gb ''success''"
    by (simp add: balance_def Let_def)
  with assms(2) have "r \<in> set (?gb ''fail'') \<or> r \<in> set (?gb ''success'')" by simp
  then show ?thesis
  proof
    assume "r \<in> set (?gb ''fail'')"
    then have "r \<in> set (filter (\<lambda>r. Result r = ''fail'') data)"
      using set_groupby_apply [OF assms(1), of ?n "filter (\<lambda>r. Result r = ''fail'') data"]
      by blast
    then show ?thesis by simp
  next
    assume "r \<in> set (?gb ''success'')"
    then have "r \<in> set (filter (\<lambda>r. Result r = ''success'') data)"
      using set_groupby_apply [OF assms(1), of ?n "filter (\<lambda>r. Result r = ''success'') data"]
      by blast
    then show ?thesis by simp
  qed
qed

lemma length_extract_column: "length (extract_column c data_set) = length data_set"
  by (simp add: extract_column_def znorm_def)

lemma data_rows_nth:
  "k < length data_set \<Longrightarrow>
     data_rows fmt (length data_set) (extract_attributes columns data_set) ! k
       = join_commas (map (\<lambda>c. render fmt (extract_column c data_set ! k)) columns)"
  by (simp add: data_rows_def extract_attributes_def comp_def)

lemma render_number_no_comma:
  "\<forall>x. CHR '','' \<notin> set (fmt x) \<Longrightarrow> CHR '','' \<notin> set (render fmt (Number v))"
  by (cases v) (simp_all add: render_def)

lemma extract_column_number:
  "c \<noteq> ''Result'' \<Longrightarrow> k < length data_set \<Longrightarrow> \<exists>v. extract_column c data_set ! k = Number v"
  by (simp add: extract_column_def znorm_def)


text \<open>
  Claim C9. The exported file consists of the relation line, one declaration per
  selected column in order, the \<open>@data\<close> line and one line per record of the balanced
  dataset. \<open>Result\<close> is declared as the nominal attribute \<open>{fail,success}\<close>, every
  other column as \<open>REAL\<close>. Every data line, split at its commas, gives the values of
  the record in the order of the declared attributes and nothing else, so as many
  values as attributes; and a value of the \<open>Result\<close> column is \<open>fail\<close> or
  \<open>success\<close>. (Floats are printed without a comma.)
\<close>

theorem arff_export_format:
  assumes "targetColumns method target = Inr columns"
    and "draws_without_replacement sample"
    and "\<forall>x. CHR '','' \<notin> set (fmt x)"
    and "data_set = balance sample method mv data"
    and "k < length data_set"
  shows "arff_lines fmt target columns data_set
           = [''@relation '' @ target, []] @ map attribute_line columns @ [[], ''@data'']
             @ data_rows fmt (length data_set) (extract_attributes columns data_set)
       \<and> attribute_line ''Result'' = ''@attribute class {fail,success}''
       \<and> (\<forall>c\<in>set columns. c \<noteq> ''Result'' \<longrightarrow> attribute_line c = ''@attribute '' @ c @ '' REAL'')
       \<and> length (data_rows fmt (length data_set) (extract_attributes columns data_set))
           = length data_set
       \<and> split_commas (data_rows fmt (length data_set) (extract_attributes columns data_set) ! k)
           = map (\<lambda>c. render fmt (extract_column c data_set ! k)) columns
       \<and> length (split_commas
                   (data_rows fmt (length data_set) (extract_attributes columns data_set) ! k))
           = length columns
       \<and> (''Result'' \<in> set columns \<longrightarrow>
             render fmt (extract_column ''Result'' data_set ! k) \<in> {''fail'', ''success''})"
proof -
  have res: "render fmt (extract_column ''Result'' data_set ! k) \<in> {''fail'', ''success''}"
    if "''Result'' \<in> set columns"
  proof -
    have m: "method = ''classifier''" using targetColumns_Result [OF assms(1) that] .
    have "data_set ! k \<in> set (balance sample ''classifier'' mv data)"
      using assms(4,5) m by simp
    then have "Result (data_set ! k) = ''fail'' \<or> Result (data_set ! k) = ''success''"
      by (rule balance_classifier_results [OF assms(2)])
    then show ?thesis
      using assms(5) by (auto simp: extract_column_def render_def)
  qed
  have nc: "CHR '','' \<notin> set (render fmt (extract_column c data_set ! k))" if "c \<in> set columns" for c
  proof (cases "c = ''Result''")
    case True
    with that res have "render fmt (extract_column c data_set ! k) \<in> {''fail'', ''success''}"
      by simp
    then show ?thesis by auto
  next
    case False
    then obtain v where "extract_column c data_set ! k = Number v"
      using extract_column_number [OF False assms(5)] by blast
    then show ?thesis using render_number_no_comma [OF assms(3)] by simp
  qed
  have row: "split_commas (data_rows fmt (length data_set) (extract_attributes columns data_set) ! k)
           = map (\<lambda>c. render fmt (extract_column c data_set ! k)) columns"
    unfolding data_rows_nth [OF assms(5)]
    using targetColumns_nonempty [OF assms(1)] nc
    by (intro split_join_commas) auto
  have 1: "arff_lines fmt target columns data_set
           = [''@relation '' @ target, []] @ map attribute_line columns @ [[], ''@data'']
             @ data_rows fmt (length data_set) (extract_attributes columns data_set)"
    by (simp add: arff_lines_def)
  have 2: "attribute_line ''Result'' = ''@attribute class {fail,success}''"
    by (simp add: attribute_line_def)
  have 3: "\<forall>c\<in>set columns. c \<noteq> ''Result'' \<longrightarrow> attribute_line c = ''@attribute '' @ c @ '' REAL''"
    by (simp add: attribute_line_def)
  have 4: "length (data_rows fmt (length data_set) (extract_attributes columns data_set))
           = length data_set"
    by (simp add: data_rows_def)
  have 5: "length (split_commas
                   (data_rows fmt (length data_set) (extract_attributes columns data_set) ! k))
           = length columns"
    by (simp add: row)
  show ?thesis using 1 2 3 4 row 5 res by blast
qed


lemma demo_balanced_classifier:
  "balance take ''classifier'' 20 demo_rows
     = [demo_row ''fail'' 20 1, demo_row ''fail'' 20 2, demo_row ''success'' 10 5,
        demo_row ''success'' 20 6, demo_row ''success'' 20 7]"
  by (simp add: balance_def Let_def groupby_apply_def stratum_def cap_or_keep_def demo_row_def
      demo_rows_def)

lemma demo_classifier_columns:
  "targetColumns ''classifier'' ''edge''
     = Inr [''NumOffloadedTask'', ''TaskLength'', ''WLANUploadDelay'', ''WLANDownloadDelay'',
            ''AvgEdgeUtilization'', ''Result'']"
  by (simp add: targetColumns_def getClassifierColumns_def)

lemma demo_fmt_no_comma: "\<forall>x. CHR '','' \<notin> set (demo_fmt x)"
  by (simp add: demo_fmt_def)

theorem arff_export_format_witness:
  "length (split_commas
      (data_rows demo_fmt (length (balance take ''classifier'' 20 demo_rows))
         (extract_attributes
            [''NumOffloadedTask'', ''TaskLength'', ''WLANUploadDelay'', ''WLANDownloadDelay'',
             ''AvgEdgeUtilization'', ''Result'']
            (balance take ''classifier'' 20 demo_rows)) ! 0))
     = length [''NumOffloadedTask'', ''TaskLength'', ''WLANUploadDelay'', ''WLANDownloadDelay'',
               ''AvgEdgeUtilization'', ''Result'']
   \<and> render demo_fmt (extract_column ''Result'' (balance take ''classifier'' 20 demo_rows) ! 0)
       \<in> {''fail'', ''success''}
   \<and> length (data_rows demo_fmt (length (balance take ''classifier'' 20 demo_rows))
         (extract_attributes
            [''NumOffloadedTask'', ''TaskLength'', ''WLANUploadDelay'', ''WLANDownloadDelay'',
             ''AvgEdgeUtilization'', ''Result'']
            (balance take ''classifier'' 20 demo_rows)))
       = length (balance take ''classifier'' 20 demo_rows)
   \<and> length (balance take ''classifier'' 20 demo_rows) = 5"
proof -
  have k: "0 < length (balance take ''classifier'' 20 demo_rows)"
    by (simp add: demo_balanced_classifier)
  have r: "''Result'' \<in> set [''NumOffloadedTask'', ''TaskLength'', ''WLANUploadDelay'',
             ''WLANDownloadDelay'', ''AvgEdgeUtilization'', ''Result'']"
    by simp
  have l: "length (balance take ''classifier'' 20 demo_rows) = 5"
    by (simp add: demo_balanced_classifier)
  note inst = arff_export_format [OF demo_classifier_columns take_draws demo_fmt_no_comma refl k]
  note a = inst [THEN conjunct2, THEN conjunct2, THEN conjunct2, THEN conjunct1]
  note b = inst [THEN conjunct2, THEN conjunct2, THEN conjunct2, THEN conjunct2, THEN conjunct2,
      THEN conjunct1]
  note c = inst [THEN conjunct2, THEN conjunct2, THEN conjunct2, THEN conjunct2, THEN conjunct2,
      THEN conjunct2, rule_format, OF r]
  from a b c l show ?thesis by blast
qed

end
